theory Spec2Isabelle
  imports Main "HOL-Library.Char_ord" "HOL-Library.List_Lexorder" "HOL-Library.Product_Lexorder"
begin

section \<open>Strings\<close>

text \<open>
  Python strings are modelled as \<^typ>\<open>string\<close>. The case conversions and
  \<open>str.strip\<close> act on the ASCII range, which is the range the identifiers, names and
  e-mail addresses of the application live in.
\<close>

definition lower_char :: "char \<Rightarrow> char" where
  "lower_char c =
     (case map_of (zip ''ABCDEFGHIJKLMNOPQRSTUVWXYZ'' ''abcdefghijklmnopqrstuvwxyz'') c of
        Some d \<Rightarrow> d
      | None \<Rightarrow> c)"

definition upper_char :: "char \<Rightarrow> char" where
  "upper_char c =
     (case map_of (zip ''abcdefghijklmnopqrstuvwxyz'' ''ABCDEFGHIJKLMNOPQRSTUVWXYZ'') c of
        Some d \<Rightarrow> d
      | None \<Rightarrow> c)"

definition lower :: "string \<Rightarrow> string" where
  "lower s = map lower_char s"

definition upper :: "string \<Rightarrow> string" where
  "upper s = map upper_char s"

definition is_space :: "char \<Rightarrow> bool" where
  "is_space c = (let n = (of_char c :: nat) in (9 \<le> n \<and> n \<le> 13) \<or> (28 \<le> n \<and> n \<le> 32))"

definition strip :: "string \<Rightarrow> string" where
  "strip s = rev (dropWhile is_space (rev (dropWhile is_space s)))"

text \<open>\<open>str(n)\<close> of a non-negative integer: its decimal digits.\<close>

definition digit_char :: "nat \<Rightarrow> char" where
  "digit_char d = ''0123456789'' ! d"

fun str_nat :: "nat \<Rightarrow> string" where
  "str_nat n = (if n < 10 then [digit_char n] else str_nat (n div 10) @ [digit_char (n mod 10)])"

declare str_nat.simps [simp del]

section \<open>Data model (courses/models.py)\<close>

type_synonym pk = nat

record date =
  date_year :: nat
  date_month :: nat
  date_day :: nat

text \<open>
  \<open>django.contrib.auth.models.User\<close>, with the columns the handlers read. The stored
  password stands for the password hash: \<open>check_password\<close> is equality with it.
\<close>

record User =
  user_pk :: pk
  username :: string
  password :: string
  email :: string
  first_name :: string
  last_name :: string
  is_staff :: bool
  user_is_active :: bool

record Batch =
  batch_pk :: pk
  batch_name :: string
  batch_is_active :: bool

record StudentProfile =
  profile_pk :: pk
  profile_user :: pk
  student_id :: string
  phone :: string
  batch :: "pk option"
  date_of_birth :: "date option"
  address :: string
  profile_picture :: "string option"
  enrollment_date :: date
  profile_is_active :: bool
  is_verified :: bool
  verified_at :: "nat option"
  enrolled_courses :: "pk list"

record Course =
  course_pk :: pk
  title :: string
  course_is_active :: bool

record Module =
  module_pk :: pk
  module_course :: pk
  module_title :: string
  order :: int
  is_published :: bool
  admin_completed :: bool

record ModuleCompletion =
  completion_pk :: pk
  completion_student :: pk
  completion_module :: pk
  completed :: bool
  completed_at :: "nat option"

record Resource =
  resource_pk :: pk
  resource_course :: pk
  resource_module :: "pk option"
  resource_title :: string
  resource_file :: string
  uploaded_at :: nat
  resource_is_active :: bool

record Announcement =
  announcement_pk :: pk
  announcement_title :: string
  announcement_batch :: "pk option"
  is_global :: bool
  created_at :: nat
  announcement_is_active :: bool

record GalleryImage =
  image_pk :: pk
  caption :: string
  image_created_at :: nat

record Branch =
  branch_pk :: pk
  branch_name :: string
  branch_is_active :: bool
  branch_created_at :: nat

record Certificate =
  certificate_pk :: pk
  certificate_student :: pk
  certificate_course :: pk
  issue_date :: date
  certificate_number :: string
  pdf_file :: "string option"

text \<open>
  The variable text of the one-page certificate, in the order it is drawn; the fixed
  layout (borders, fonts, headings, signature line, institution name) carries no data.
\<close>

record pdf =
  pdf_student_name :: string
  pdf_registration_no :: string
  pdf_course_title :: string
  pdf_issue_date :: date
  pdf_certificate_no :: string

datatype file_content = Upload string | CertificatePdf pdf

text \<open>
  The database: one list of rows per table, and the media storage as a list of
  (name, content) pairs. Primary keys are assigned by the database on insert.
\<close>

record database =
  users :: "User list"
  batches :: "Batch list"
  profiles :: "StudentProfile list"
  courses :: "Course list"
  modules :: "Module list"
  completions :: "ModuleCompletion list"
  resources :: "Resource list"
  announcements :: "Announcement list"
  certificates :: "Certificate list"
  gallery_images :: "GalleryImage list"
  branches :: "Branch list"
  storage :: "(string \<times> file_content) list"

definition next_pk :: "pk list \<Rightarrow> pk" where
  "next_pk ks = Suc (foldr max ks 0)"

text \<open>
  What a request sees of the world outside the database: the current date
  (\<open>datetime.now()\<close>, \<open>auto_now_add\<close>), the current time (\<open>timezone.now()\<close>) and the
  storage backend's choice of the name a file is stored under (\<open>generate_filename\<close>
  and \<open>get_available_name\<close> of the storage class the settings name), given the names
  in use and the name asked for.
\<close>

record env =
  today :: date
  now :: nat
  get_available_name :: "string list \<Rightarrow> string \<Rightarrow> string"

section \<open>Requests and responses\<close>

datatype http_method = GET | POST

record request =
  req_user :: "User option"
  req_method :: http_method

datatype level = Info | Success | Warning | Error

datatype exn = IntegrityError | MultipleObjectsReturned

text \<open>What a form field's validation can raise; \<open>Message\<close> carries the text a
  \<open>clean_<field>\<close> method of the application gives.\<close>

datatype field_error = Required | MaxLength nat | InvalidChoice | Invalid | Message string

text \<open>The context each template is rendered with, entry by entry in the order of the
  handler's \<open>context\<close> dictionary.\<close>

datatype context_data =
    LoginPage
  | RegisterPage "(string \<times> field_error) list"
  | DashboardPage StudentProfile "Course list" "Announcement list" nat "Branch list"
      "GalleryImage list"
  | CourseDetailPage Course "Module list" "pk list" "Resource list" bool "Certificate option"
  | ModuleDetailPage Module ModuleCompletion "Resource list"
  | ProfilePage StudentProfile nat nat "Certificate list"
  | AnnouncementsPage "Announcement list"
  | CourseListPage "Course list" "StudentProfile option"
  | HomePage "Course list" "GalleryImage list" "Branch list"
  | GalleryPage "GalleryImage list"
  | BranchesPage "Branch list"
  | ContactPage

text \<open>
  A response: a redirect to a named URL pattern with its arguments, a rendered
  template with its context, the redirect of \<open>@login_required\<close> to the login URL of the
  settings, a raised \<open>Http404\<close> with its reason, a PDF attachment, a file attachment, or
  an exception no handler catches (a server error).
\<close>

datatype response =
    Redirect string "pk list"
  | Render string context_data
  | RedirectToLogin
  | Http404 string
  | PdfAttachment string pdf
  | FileAttachment string file_content
  | ServerError exn

record result =
  res_response :: response
  res_messages :: "(level \<times> string) list"
  res_db :: database
  res_session :: "User option"

definition reply :: "request \<Rightarrow> database \<Rightarrow> response \<Rightarrow> (level \<times> string) list \<Rightarrow> result" where
  "reply request db r ms =
     \<lparr>res_response = r, res_messages = ms, res_db = db, res_session = req_user request\<rparr>"


section \<open>Queries shared by the handlers\<close>

text \<open>
  \<open>order_by\<close> and \<open>Meta.ordering\<close>: ascending by a key, or descending (\<open>'-field'\<close>).
  Strings are compared by code point, dates as (year, month, day).
\<close>

definition order_by :: "('a \<Rightarrow> 'k::linorder) \<Rightarrow> 'a list \<Rightarrow> 'a list" where
  "order_by key rows = sort_key key rows"

definition order_by_desc :: "('a \<Rightarrow> 'k::linorder) \<Rightarrow> 'a list \<Rightarrow> 'a list" where
  "order_by_desc key rows = rev (sort_key key rows)"

definition date_key :: "date \<Rightarrow> nat \<times> nat \<times> nat" where
  "date_key d = (date_year d, date_month d, date_day d)"

text \<open>\<open>user.student_profile\<close>: the profile row of the one-to-one relation, if any.\<close>

definition student_profile_of :: "database \<Rightarrow> User \<Rightarrow> StudentProfile option" where
  "student_profile_of db user = find (\<lambda>p. profile_user p = user_pk user) (profiles db)"

text \<open>\<open>User.get_full_name\<close>.\<close>

definition get_full_name :: "User \<Rightarrow> string" where
  "get_full_name user = strip (first_name user @ '' '' @ last_name user)"

text \<open>\<open>student.enrolled_courses.filter(id=course_id).exists()\<close>.\<close>

definition is_enrolled :: "StudentProfile \<Rightarrow> pk \<Rightarrow> bool" where
  "is_enrolled student cid = (cid \<in> set (enrolled_courses student))"

text \<open>\<open>course.modules.filter(is_published=True)\<close>.\<close>

definition published_modules :: "database \<Rightarrow> pk \<Rightarrow> Module list" where
  "published_modules db cid =
     filter (\<lambda>m. module_course m = cid \<and> is_published m) (modules db)"

text \<open>
  \<open>ModuleCompletion.objects.filter(student=student, module__course=course,
  completed=True)\<close>: the student's completion rows whose module belongs to the course
  and whose own \<open>completed\<close> flag is set.
\<close>

definition completed_completions :: "database \<Rightarrow> StudentProfile \<Rightarrow> pk \<Rightarrow> ModuleCompletion list" where
  "completed_completions db student cid =
     filter (\<lambda>mc. completion_student mc = profile_pk student
                 \<and> list_ex (\<lambda>m. module_pk m = completion_module mc \<and> module_course m = cid) (modules db)
                 \<and> completed mc)
       (completions db)"

section \<open>Certificates\<close>

text \<open>\<open>Certificate.generate_certificate_number\<close>, for the certificate's student.\<close>

definition generate_certificate_number :: "env \<Rightarrow> StudentProfile \<Rightarrow> string" where
  "generate_certificate_number e student =
     ''NCC-'' @ str_nat (date_year (today e)) @ ''-'' @ student_id student"

text \<open>
  \<open>certificate.save()\<close> of an existing row: the row with the certificate's primary key
  is replaced, unless another row already carries its \<open>certificate_number\<close>
  (\<open>unique=True\<close>), which raises \<open>IntegrityError\<close>.
\<close>

definition put_row :: "Certificate \<Rightarrow> Certificate list \<Rightarrow> Certificate list" where
  "put_row c cs = map (\<lambda>c'. if certificate_pk c' = certificate_pk c then c else c') cs"

definition save_certificate :: "Certificate \<Rightarrow> database \<Rightarrow> exn + database" where
  "save_certificate c db =
     (if list_ex (\<lambda>c'. certificate_pk c' \<noteq> certificate_pk c
                      \<and> certificate_number c' = certificate_number c) (certificates db)
      then Inl IntegrityError
      else Inr (db\<lparr>certificates := put_row c (certificates db)\<rparr>))"

text \<open>
  \<open>Certificate.objects.get_or_create(student=student, course=course)\<close>: the one
  matching row; with no match a new row, dated today, with an empty number and no
  file, whose insertion fails when another row has an empty number; with several
  matches \<open>MultipleObjectsReturned\<close>.
\<close>

definition certificate_for :: "StudentProfile \<Rightarrow> pk \<Rightarrow> Certificate \<Rightarrow> bool" where
  "certificate_for student cid c \<longleftrightarrow>
     certificate_student c = profile_pk student \<and> certificate_course c = cid"

definition get_or_create_certificate ::
    "env \<Rightarrow> StudentProfile \<Rightarrow> Course \<Rightarrow> database \<Rightarrow> exn + (Certificate \<times> bool \<times> database)" where
  "get_or_create_certificate e student course db =
     (case filter (certificate_for student (course_pk course)) (certificates db) of
        [c] \<Rightarrow> Inr (c, False, db)
      | [] \<Rightarrow>
          (if list_ex (\<lambda>c'. certificate_number c' = []) (certificates db)
           then Inl IntegrityError
           else
             (let c = \<lparr>certificate_pk = next_pk (map certificate_pk (certificates db)),
                       certificate_student = profile_pk student,
                       certificate_course = course_pk course,
                       issue_date = today e,
                       certificate_number = [],
                       pdf_file = None\<rparr>
              in Inr (c, True, db\<lparr>certificates := certificates db @ [c]\<rparr>)))
      | _ \<Rightarrow> Inl MultipleObjectsReturned)"

text \<open>
  \<open>storage.save(name, content)\<close>: the content is stored under the name the backend
  makes available, which is returned.
\<close>

definition storage_save ::
    "env \<Rightarrow> string \<Rightarrow> file_content \<Rightarrow> (string \<times> file_content) list
      \<Rightarrow> string \<times> (string \<times> file_content) list" where
  "storage_save e name content st =
     (let n = get_available_name e (map fst st) name
      in (n, (n, content) # filter (\<lambda>kv. fst kv \<noteq> n) st))"

text \<open>
  \<open>views.generate_certificate\<close>, after the completion check, in three steps. Each
  write is committed as it is made (Django's autocommit), so a row inserted before an
  uncaught exception stays.

  First step: \<open>if not certificate.certificate_number\<close>, the number is generated and the
  row saved.
\<close>

definition assign_number ::
    "env \<Rightarrow> StudentProfile \<Rightarrow> Certificate \<Rightarrow> database \<Rightarrow> exn + (Certificate \<times> database)" where
  "assign_number e student certificate db =
     (if certificate_number certificate = []
      then (let certificate1 =
                  certificate\<lparr>certificate_number := generate_certificate_number e student\<rparr>
            in map_sum id (Pair certificate1) (save_certificate certificate1 db))
      else Inr (certificate, db))"

text \<open>
  Second step: the page is drawn, \<open>certificate.pdf_file.save(name, buffer, save=True)\<close>
  stores it and saves the row, and the PDF is returned as an attachment.
\<close>

definition render_and_store ::
    "env \<Rightarrow> request \<Rightarrow> User \<Rightarrow> StudentProfile \<Rightarrow> Course \<Rightarrow> Certificate \<Rightarrow> database \<Rightarrow> result" where
  "render_and_store e request user student course certificate db =
     (let page = \<lparr>pdf_student_name = upper (get_full_name user),
                  pdf_registration_no = student_id student,
                  pdf_course_title = title course,
                  pdf_issue_date = issue_date certificate,
                  pdf_certificate_no = certificate_number certificate\<rparr>;
          filename = ''certificate_'' @ certificate_number certificate @ ''.pdf'';
          (stored_name, st) =
             storage_save e (''certificates/'' @ filename) (CertificatePdf page) (storage db);
          db1 = db\<lparr>storage := st\<rparr>
      in
      (case save_certificate (certificate\<lparr>pdf_file := Some stored_name\<rparr>) db1 of
         Inl x \<Rightarrow> reply request db1 (ServerError x) []
       | Inr db2 \<Rightarrow>
           reply request db2 (PdfAttachment filename page)
             [(Success, ''Certificate generated successfully!'')]))"

text \<open>The steps in sequence, from \<open>get_or_create\<close> on.\<close>

definition issue_certificate ::
    "env \<Rightarrow> request \<Rightarrow> User \<Rightarrow> StudentProfile \<Rightarrow> Course \<Rightarrow> database \<Rightarrow> result" where
  "issue_certificate e request user student course db =
     (case get_or_create_certificate e student course db of
        Inl x \<Rightarrow> reply request db (ServerError x) []
      | Inr (certificate, created, db1) \<Rightarrow>
     (case assign_number e student certificate db1 of
        Inl x \<Rightarrow> reply request db1 (ServerError x) []
      | Inr (certificate2, db2) \<Rightarrow>
          render_and_store e request user student course certificate2 db2))"

text \<open>
  \<open>views.generate_certificate\<close>: the guards (login, profile, course, enrolment,
  completion check), then the issue of the certificate.
\<close>

definition generate_certificate :: "env \<Rightarrow> request \<Rightarrow> pk \<Rightarrow> database \<Rightarrow> result" where
  "generate_certificate e request course_id db =
     (case req_user request of
        None \<Rightarrow> reply request db RedirectToLogin []
      | Some user \<Rightarrow>
     (case student_profile_of db user of
        None \<Rightarrow> reply request db (Redirect ''home'' []) [(Error, ''Student profile not found.'')]
      | Some student \<Rightarrow>
     (case find (\<lambda>c. course_pk c = course_id) (courses db) of
        None \<Rightarrow> reply request db (Http404 ''No Course matches the given query.'') []
      | Some course \<Rightarrow>
     if \<not> is_enrolled student (course_pk course)
     then reply request db (Redirect ''dashboard'' [])
            [(Error, ''You do not have access to this course.'')]
     else
       (let total_modules = length (published_modules db (course_pk course));
            completed_modules = length (completed_completions db student (course_pk course))
        in
        if completed_modules < total_modules
        then reply request db (Redirect ''course_detail'' [course_pk course])
               [(Error, ''You must complete all modules before getting a certificate.'')]
        else issue_certificate e request user student course db))))"


section \<open>Login (views.student\_login)\<close>

record login_form =
  login_username :: string
  login_password :: string

text \<open>
  \<open>django.contrib.auth.authenticate\<close> with the model backend: the user of that name,
  if the password checks and the account is active.
\<close>

definition authenticate :: "database \<Rightarrow> string \<Rightarrow> string \<Rightarrow> User option" where
  "authenticate db uname pw =
     (case find (\<lambda>u. username u = uname) (users db) of
        None \<Rightarrow> None
      | Some u \<Rightarrow> if password u = pw \<and> user_is_active u then Some u else None)"

text \<open>
  \<open>AuthenticationForm.is_valid()\<close>: both fields are required (the username is
  stripped, the password is not), and the form's own \<open>clean\<close> authenticates.
\<close>

definition authentication_form_valid :: "database \<Rightarrow> login_form \<Rightarrow> bool" where
  "authentication_form_valid db form \<longleftrightarrow>
     strip (login_username form) \<noteq> [] \<and> login_password form \<noteq> []
     \<and> authenticate db (strip (login_username form)) (login_password form) \<noteq> None"

text \<open>
  \<open>views.student_login\<close>. \<open>login(request, user)\<close> puts the user into the session; the
  \<open>last_login\<close> column it also writes is not part of the model.
\<close>

definition student_login :: "request \<Rightarrow> login_form \<Rightarrow> database \<Rightarrow> result" where
  "student_login request form db =
     (if req_user request \<noteq> None then reply request db (Redirect ''dashboard'' []) []
      else if req_method request = POST then
        (if authentication_form_valid db form then
           (case authenticate db (strip (login_username form)) (login_password form) of
              Some user \<Rightarrow>
                (case student_profile_of db user of
                   Some profile \<Rightarrow>
                     if \<not> is_verified profile
                     then reply request db (Redirect ''login'' [])
                            [(Warning, ''Your account is pending verification by the administrator. Please wait for approval.'')]
                     else \<lparr>res_response = Redirect ''dashboard'' [],
                           res_messages = [(Success, ''Welcome back, '' @ get_full_name user @ ''!'')],
                           res_db = db, res_session = Some user\<rparr>
                 | None \<Rightarrow>
                     reply request db (Render ''login.html'' LoginPage)
                       [(Error, ''This account is not a student account.'')])
            | None \<Rightarrow>
                reply request db (Render ''login.html'' LoginPage)
                  [(Error, ''Invalid username or password.'')])
         else reply request db (Render ''login.html'' LoginPage)
                [(Error, ''Invalid username or password.'')])
      else reply request db (Render ''login.html'' LoginPage) [])"

text \<open>\<open>views.student_logout\<close>.\<close>

definition student_logout :: "request \<Rightarrow> database \<Rightarrow> result" where
  "student_logout request db =
     \<lparr>res_response = Redirect ''home'' [],
      res_messages = [(Info, ''You have been logged out successfully.'')],
      res_db = db, res_session = None\<rparr>"

section \<open>Registration (forms.StudentRegistrationForm, views.student\_register)\<close>

text \<open>
  The submitted data: the text fields as typed, the batch as the chosen primary key,
  the date as parsed, the picture as (name, content).
\<close>

record registration_form =
  form_username :: string
  form_first_name :: string
  form_last_name :: string
  form_email :: string
  form_password1 :: string
  form_password2 :: string
  form_student_id :: string
  form_phone :: string
  form_batch :: "pk option"
  form_date_of_birth :: "date option"
  form_address :: string
  form_profile_picture :: "(string \<times> string) option"

text \<open>
  The validation that lives in the framework and the settings, not in the
  repository: the format check of \<open>EmailField\<close>, and the errors \<open>UserCreationForm\<close>
  and the model validation raise for the user name and the two passwords.
\<close>

record framework =
  valid_email :: "string \<Rightarrow> bool"
  user_creation_errors :: "database \<Rightarrow> registration_form \<Rightarrow> (string \<times> field_error) list"

text \<open>\<open>CharField(max_length=n, required=True).clean\<close>: strip, required, length.\<close>

definition clean_char_field :: "nat \<Rightarrow> string \<Rightarrow> field_error + string" where
  "clean_char_field n raw =
     (let v = strip raw
      in if v = [] then Inl Required
         else if n < length v then Inl (MaxLength n)
         else Inr v)"

text \<open>\<open>EmailField(required=False).clean\<close>: strip; an empty value is accepted as it is.\<close>

definition clean_email_field :: "framework \<Rightarrow> string \<Rightarrow> field_error + string" where
  "clean_email_field fw raw =
     (let v = strip raw
      in if v = [] then Inr []
         else if valid_email fw v then Inr v
         else Inl Invalid)"

text \<open>\<open>ModelChoiceField(queryset=Batch.objects.filter(is_active=True), required=True)\<close>.\<close>

definition clean_batch :: "database \<Rightarrow> pk option \<Rightarrow> field_error + pk" where
  "clean_batch db choice =
     (case choice of
        None \<Rightarrow> Inl Required
      | Some k \<Rightarrow>
          if list_ex (\<lambda>b. batch_pk b = k \<and> batch_is_active b) (batches db) then Inr k
          else Inl InvalidChoice)"

text \<open>\<open>StudentRegistrationForm.clean_student_id\<close>.\<close>

definition clean_student_id :: "database \<Rightarrow> string \<Rightarrow> field_error + string" where
  "clean_student_id db sid =
     (if list_ex (\<lambda>p. student_id p = sid) (profiles db)
      then Inl (Message ''This Registration No is already registered.'')
      else Inr sid)"

text \<open>
  \<open>StudentRegistrationForm.clean_email\<close>; \<open>email__iexact\<close> compares without regard to
  case.
\<close>

definition clean_email :: "database \<Rightarrow> string \<Rightarrow> field_error + string" where
  "clean_email db v =
     (if v = [] then Inr []
      else (let a = strip (lower v)
            in if list_ex (\<lambda>u. lower (email u) = lower a) (users db)
               then Inl (Message ''This email is already registered.'')
               else Inr a))"

text \<open>
  A field's \<open>clean_<name>\<close> method runs on the value the field's own \<open>clean\<close> returns,
  and only when that raised nothing.
\<close>

definition cleaned_student_id :: "database \<Rightarrow> registration_form \<Rightarrow> field_error + string" where
  "cleaned_student_id db form =
     (case clean_char_field 20 (form_student_id form) of
        Inl err \<Rightarrow> Inl err
      | Inr v \<Rightarrow> clean_student_id db v)"

definition cleaned_email :: "framework \<Rightarrow> database \<Rightarrow> registration_form \<Rightarrow> field_error + string" where
  "cleaned_email fw db form =
     (case clean_email_field fw (form_email form) of
        Inl err \<Rightarrow> Inl err
      | Inr v \<Rightarrow> clean_email db v)"

definition field_errors :: "string \<Rightarrow> field_error + 'a \<Rightarrow> (string \<times> field_error) list" where
  "field_errors name r = (case r of Inl err \<Rightarrow> [(name, err)] | Inr _ \<Rightarrow> [])"

text \<open>\<open>form.errors\<close>; \<open>form.is_valid()\<close> is that there are none.\<close>

definition registration_errors ::
    "framework \<Rightarrow> database \<Rightarrow> registration_form \<Rightarrow> (string \<times> field_error) list" where
  "registration_errors fw db form =
     field_errors ''first_name'' (clean_char_field 30 (form_first_name form))
     @ field_errors ''last_name'' (clean_char_field 30 (form_last_name form))
     @ field_errors ''email'' (cleaned_email fw db form)
     @ field_errors ''student_id'' (cleaned_student_id db form)
     @ field_errors ''phone'' (clean_char_field 15 (form_phone form))
     @ field_errors ''batch'' (clean_batch db (form_batch form))
     @ user_creation_errors fw db form"

text \<open>
  \<open>StudentRegistrationForm.save\<close> on a valid form: the user row, then the profile row
  with the model's defaults (unverified, active, no course), the picture stored under
  \<open>profiles/\<close>.
\<close>

definition form_save ::
    "env \<Rightarrow> framework \<Rightarrow> registration_form \<Rightarrow> database \<Rightarrow> User \<times> database" where
  "form_save e fw form db =
     (let user = \<lparr>user_pk = next_pk (map user_pk (users db)),
                  username = strip (form_username form),
                  password = form_password1 form,
                  email = projr (cleaned_email fw db form),
                  first_name = projr (clean_char_field 30 (form_first_name form)),
                  last_name = projr (clean_char_field 30 (form_last_name form)),
                  is_staff = False,
                  user_is_active = True\<rparr>;
          db1 = db\<lparr>users := users db @ [user]\<rparr>;
          (picture, st) =
             (case form_profile_picture form of
                None \<Rightarrow> (None, storage db1)
              | Some (name, content) \<Rightarrow>
                  (let (n, st) = storage_save e (''profiles/'' @ name) (Upload content) (storage db1)
                   in (Some n, st)));
          profile = \<lparr>profile_pk = next_pk (map profile_pk (profiles db1)),
                     profile_user = user_pk user,
                     student_id = projr (cleaned_student_id db form),
                     phone = projr (clean_char_field 15 (form_phone form)),
                     batch = Some (projr (clean_batch db (form_batch form))),
                     date_of_birth = form_date_of_birth form,
                     address = strip (form_address form),
                     profile_picture = picture,
                     enrollment_date = today e,
                     profile_is_active = True,
                     is_verified = False,
                     verified_at = None,
                     enrolled_courses = []\<rparr>
      in (user, db1\<lparr>profiles := profiles db1 @ [profile], storage := st\<rparr>))"

text \<open>\<open>views.student_register\<close>.\<close>

definition student_register ::
    "env \<Rightarrow> framework \<Rightarrow> request \<Rightarrow> registration_form \<Rightarrow> database \<Rightarrow> result" where
  "student_register e fw request form db =
     (if req_user request \<noteq> None then reply request db (Redirect ''dashboard'' []) []
      else if req_method request = POST then
        (let errs = registration_errors fw db form
         in if errs = []
            then (let (user, db1) = form_save e fw form db
                  in reply request db1 (Redirect ''login'' [])
                       [(Success, ''Registration successful! Your account is pending verification by the administrator. You will be able to login once your account is approved.'')])
            else reply request db (Render ''register.html'' (RegisterPage errs)) [])
      else reply request db (Render ''register.html'' (RegisterPage [])) [])"

section \<open>Pages of a student (views.dashboard, course\_detail, student\_profile)\<close>

text \<open>\<open>student.enrolled_courses.filter(is_active=True)\<close>, in the order of \<open>Course.Meta\<close>.\<close>

definition active_enrolled_courses :: "database \<Rightarrow> StudentProfile \<Rightarrow> Course list" where
  "active_enrolled_courses db student =
     order_by title
       (filter (\<lambda>c. course_pk c \<in> set (enrolled_courses student) \<and> course_is_active c)
          (courses db))"

text \<open>
  \<open>Announcement.objects.filter(Q(batch=student.batch) | Q(is_global=True),
  is_active=True).order_by('-created_at')\<close>.
\<close>

definition announcements_for :: "database \<Rightarrow> StudentProfile \<Rightarrow> Announcement list" where
  "announcements_for db student =
     order_by_desc created_at
       (filter (\<lambda>a. (announcement_batch a = batch student \<or> is_global a)
                   \<and> announcement_is_active a)
          (announcements db))"

text \<open>\<open>views.dashboard\<close>.\<close>

definition dashboard :: "request \<Rightarrow> database \<Rightarrow> result" where
  "dashboard request db =
     (case req_user request of
        None \<Rightarrow> reply request db RedirectToLogin []
      | Some user \<Rightarrow>
     (case student_profile_of db user of
        None \<Rightarrow> reply request db (Redirect ''home'' []) [(Error, ''Student profile not found.'')]
      | Some student \<Rightarrow>
     (let enrolled = active_enrolled_courses db student;
          recent = take 5 (announcements_for db student);
          completed_modules =
            length (filter (\<lambda>m. module_course m \<in> set (map course_pk enrolled)
                              \<and> admin_completed m) (modules db));
          all_branches = order_by branch_created_at (branches db);
          images = take 4 (order_by_desc image_created_at (gallery_images db))
      in reply request db
           (Render ''dashboard.html''
              (DashboardPage student enrolled recent completed_modules all_branches images))
           [])))"

text \<open>
  \<open>views.course_detail\<close>. The page is public; the completion status, the enrolment and
  the certificate are filled in for a logged-in student only.
\<close>

definition course_detail :: "request \<Rightarrow> pk \<Rightarrow> database \<Rightarrow> result" where
  "course_detail request course_id db =
     (case find (\<lambda>c. course_pk c = course_id \<and> course_is_active c) (courses db) of
        None \<Rightarrow> reply request db (Http404 ''No Course matches the given query.'') []
      | Some course \<Rightarrow>
     (let student = (case req_user request of
                       None \<Rightarrow> None
                     | Some user \<Rightarrow> student_profile_of db user);
          published = order_by order (published_modules db (course_pk course));
          completed_module_ids =
            (case student of
               None \<Rightarrow> []
             | Some _ \<Rightarrow> map module_pk (filter admin_completed published));
          course_resources =
            order_by_desc uploaded_at
              (filter (\<lambda>r. resource_course r = course_pk course \<and> resource_is_active r)
                 (resources db));
          enrolled = (case student of
                        None \<Rightarrow> False
                      | Some s \<Rightarrow> is_enrolled s course_id);
          certificate =
            (case student of
               None \<Rightarrow> None
             | Some s \<Rightarrow>
                 (case order_by_desc (\<lambda>c. date_key (issue_date c))
                         (filter (certificate_for s (course_pk course)) (certificates db)) of
                    [] \<Rightarrow> None
                  | c # _ \<Rightarrow> Some c))
      in reply request db
           (Render ''course_detail.html''
              (CourseDetailPage course published completed_module_ids course_resources
                 enrolled certificate))
           []))"

text \<open>
  \<open>views.student_profile\<close>. \<open>if profile_id:\<close> takes the staff branch for a non-zero
  identifier only.
\<close>

definition student_profile :: "request \<Rightarrow> pk option \<Rightarrow> database \<Rightarrow> result" where
  "student_profile request profile_id db =
     (case req_user request of
        None \<Rightarrow> reply request db RedirectToLogin []
      | Some user \<Rightarrow>
     (let page = (\<lambda>student.
            (let enrolled = active_enrolled_courses db student;
                 total_modules =
                   length (filter (\<lambda>m. module_course m \<in> set (map course_pk enrolled)
                                     \<and> is_published m) (modules db));
                 completed_modules =
                   length (filter (\<lambda>mc. completion_student mc = profile_pk student
                       \<and> list_ex (\<lambda>m. module_pk m = completion_module mc
                                      \<and> module_course m \<in> set (map course_pk enrolled)) (modules db)
                       \<and> completed mc) (completions db));
                 own_certificates =
                   order_by_desc (\<lambda>c. date_key (issue_date c))
                     (filter (\<lambda>c. certificate_student c = profile_pk student) (certificates db))
             in reply request db
                  (Render ''student_profile.html''
                     (ProfilePage student total_modules completed_modules own_certificates))
                  []))
      in
      if profile_id \<noteq> None \<and> profile_id \<noteq> Some 0
      then (if \<not> is_staff user
            then reply request db (Redirect ''dashboard'' []) [(Error, ''Permission denied.'')]
            else (case find (\<lambda>p. Some (profile_pk p) = profile_id) (profiles db) of
                    None \<Rightarrow> reply request db (Http404 ''No StudentProfile matches the given query.'') []
                  | Some student \<Rightarrow> page student))
      else (case student_profile_of db user of
              None \<Rightarrow> reply request db (Redirect ''home'' []) [(Error, ''Student profile not found.'')]
            | Some student \<Rightarrow> page student)))"

section \<open>Modules and resources (views.module\_detail, download\_resource)\<close>

text \<open>\<open>ModuleCompletion.mark_complete\<close>: the flag, the time, and \<open>save()\<close>.\<close>

definition mark_complete :: "env \<Rightarrow> ModuleCompletion \<Rightarrow> database \<Rightarrow> ModuleCompletion \<times> database" where
  "mark_complete e mc db =
     (let mc1 = mc\<lparr>completed := True, completed_at := Some (now e)\<rparr>
      in (mc1, db\<lparr>completions :=
                    map (\<lambda>x. if completion_pk x = completion_pk mc then mc1 else x)
                      (completions db)\<rparr>))"

definition completion_for :: "StudentProfile \<Rightarrow> Module \<Rightarrow> ModuleCompletion \<Rightarrow> bool" where
  "completion_for student m mc \<longleftrightarrow>
     completion_student mc = profile_pk student \<and> completion_module mc = module_pk m"

text \<open>
  \<open>ModuleCompletion.objects.get_or_create(student=student, module=module)\<close>: a new row
  takes the model's defaults, \<open>completed = False\<close> and no \<open>completed_at\<close>.
\<close>

definition get_or_create_completion ::
    "StudentProfile \<Rightarrow> Module \<Rightarrow> database \<Rightarrow> exn + (ModuleCompletion \<times> bool \<times> database)" where
  "get_or_create_completion student m db =
     (case filter (completion_for student m) (completions db) of
        [mc] \<Rightarrow> Inr (mc, False, db)
      | [] \<Rightarrow>
          (let mc = \<lparr>completion_pk = next_pk (map completion_pk (completions db)),
                     completion_student = profile_pk student,
                     completion_module = module_pk m,
                     completed = False,
                     completed_at = None\<rparr>
           in Inr (mc, True, db\<lparr>completions := completions db @ [mc]\<rparr>))
      | _ \<Rightarrow> Inl MultipleObjectsReturned)"

text \<open>The constraint \<open>unique_together = ['student', 'module']\<close> of \<open>ModuleCompletion\<close>.\<close>

definition completion_constraints :: "database \<Rightarrow> bool" where
  "completion_constraints db \<longleftrightarrow>
     distinct (map (\<lambda>mc. (completion_student mc, completion_module mc)) (completions db))"

text \<open>\<open>views.module_detail\<close>.\<close>

definition module_detail :: "request \<Rightarrow> pk \<Rightarrow> database \<Rightarrow> result" where
  "module_detail request module_id db =
     (case req_user request of
        None \<Rightarrow> reply request db RedirectToLogin []
      | Some user \<Rightarrow>
     (case student_profile_of db user of
        None \<Rightarrow> reply request db (Redirect ''home'' []) [(Error, ''Student profile not found.'')]
      | Some student \<Rightarrow>
     (case find (\<lambda>m. module_pk m = module_id \<and> is_published m) (modules db) of
        None \<Rightarrow> reply request db (Http404 ''No Module matches the given query.'') []
      | Some m \<Rightarrow>
     if \<not> is_enrolled student (module_course m)
     then reply request db (Redirect ''dashboard'' [])
            [(Error, ''You do not have access to this module.'')]
     else
       (case get_or_create_completion student m db of
          Inl x \<Rightarrow> reply request db (ServerError x) []
        | Inr (completion, created, db1) \<Rightarrow>
            (let module_resources =
                   order_by_desc uploaded_at
                     (filter (\<lambda>r. resource_module r = Some (module_pk m) \<and> resource_is_active r)
                        (resources db1))
             in reply request db1
                  (Render ''module_detail.html'' (ModuleDetailPage m completion module_resources))
                  [])))))"

text \<open>\<open>name.split('/')[-1]\<close>: what follows the last slash.\<close>

definition basename :: "string \<Rightarrow> string" where
  "basename name = rev (takeWhile (\<lambda>c. c \<noteq> CHR ''/'') (rev name))"

text \<open>
  \<open>views.download_resource\<close>. Opening the file fails when the storage has no file of
  that name; the handler catches the exception.
\<close>

definition download_resource :: "request \<Rightarrow> pk \<Rightarrow> database \<Rightarrow> result" where
  "download_resource request resource_id db =
     (case req_user request of
        None \<Rightarrow> reply request db RedirectToLogin []
      | Some user \<Rightarrow>
     (case student_profile_of db user of
        None \<Rightarrow> reply request db (Redirect ''home'' []) [(Error, ''Student profile not found.'')]
      | Some student \<Rightarrow>
     (case find (\<lambda>r. resource_pk r = resource_id \<and> resource_is_active r) (resources db) of
        None \<Rightarrow> reply request db (Http404 ''No Resource matches the given query.'') []
      | Some resource \<Rightarrow>
     if \<not> is_enrolled student (resource_course resource)
     then reply request db
            (Http404 ''You do not have permission to download this resource.'') []
     else
       (case map_of (storage db) (resource_file resource) of
          Some content \<Rightarrow>
            reply request db (FileAttachment (basename (resource_file resource)) content) []
        | None \<Rightarrow>
            reply request db (Redirect ''course_detail'' [resource_course resource])
              [(Error, ''Error downloading file.'')]))))"

section \<open>Public pages and listings\<close>

text \<open>\<open>views.home\<close>, \<open>gallery\<close>, \<open>contact\<close>, \<open>branches\<close>, \<open>course_list\<close>, \<open>announcements\<close>.\<close>

definition home :: "request \<Rightarrow> database \<Rightarrow> result" where
  "home request db =
     reply request db
       (Render ''home.html''
          (HomePage (take 6 (order_by title (filter course_is_active (courses db))))
             (take 6 (order_by_desc image_created_at (gallery_images db)))
             (order_by branch_created_at (filter branch_is_active (branches db)))))
       []"

definition gallery :: "request \<Rightarrow> database \<Rightarrow> result" where
  "gallery request db =
     reply request db
       (Render ''gallery.html'' (GalleryPage (order_by_desc image_created_at (gallery_images db))))
       []"

definition contact :: "request \<Rightarrow> database \<Rightarrow> result" where
  "contact request db = reply request db (Render ''contact.html'' ContactPage) []"

definition branches_page :: "request \<Rightarrow> database \<Rightarrow> result" where
  "branches_page request db =
     reply request db
       (Render ''branches.html''
          (BranchesPage (order_by branch_created_at (filter branch_is_active (branches db)))))
       []"

definition course_list :: "request \<Rightarrow> database \<Rightarrow> result" where
  "course_list request db =
     (let student = (case req_user request of
                       None \<Rightarrow> None
                     | Some user \<Rightarrow> student_profile_of db user)
      in reply request db
           (Render ''course_list.html''
              (CourseListPage (order_by title (filter course_is_active (courses db))) student))
           [])"

definition announcements_page :: "request \<Rightarrow> database \<Rightarrow> result" where
  "announcements_page request db =
     (case req_user request of
        None \<Rightarrow> reply request db RedirectToLogin []
      | Some user \<Rightarrow>
     (case student_profile_of db user of
        None \<Rightarrow> reply request db (Redirect ''home'' []) [(Error, ''Student profile not found.'')]
      | Some student \<Rightarrow>
          reply request db
            (Render ''announcements.html'' (AnnouncementsPage (announcements_for db student)))
            []))"

section \<open>The URL patterns (courses/urls.py)\<close>

text \<open>
  The routes whose handlers \<open>views.py\<close> defines, with the data a request to each
  carries. (The two token-login routes name handlers that \<open>views.py\<close> does not
  define.)
\<close>

datatype route =
    Home
  | Gallery
  | Contact
  | Branches
  | Login login_form
  | Register registration_form
  | Logout
  | Dashboard
  | MyProfile
  | ProfileOf pk
  | CourseDetail pk
  | ModuleDetail pk
  | DownloadResource pk
  | GenerateCertificate pk
  | Announcements
  | AllCourses

fun handle :: "env \<Rightarrow> framework \<Rightarrow> request \<Rightarrow> route \<Rightarrow> database \<Rightarrow> result" where
  "handle e fw request Home db = home request db"
| "handle e fw request Gallery db = gallery request db"
| "handle e fw request Contact db = contact request db"
| "handle e fw request Branches db = branches_page request db"
| "handle e fw request (Login form) db = student_login request form db"
| "handle e fw request (Register form) db = student_register e fw request form db"
| "handle e fw request Logout db = student_logout request db"
| "handle e fw request Dashboard db = dashboard request db"
| "handle e fw request MyProfile db = student_profile request None db"
| "handle e fw request (ProfileOf k) db = student_profile request (Some k) db"
| "handle e fw request (CourseDetail k) db = course_detail request k db"
| "handle e fw request (ModuleDetail k) db = module_detail request k db"
| "handle e fw request (DownloadResource k) db = download_resource request k db"
| "handle e fw request (GenerateCertificate k) db = generate_certificate e request k db"
| "handle e fw request Announcements db = announcements_page request db"
| "handle e fw request AllCourses db = course_list request db"

section \<open>Example data\<close>

text \<open>
  The scenario of the specification: batch B1, course C1 with two published modules
  that the administrator has marked completed, and the verified student S1 enrolled
  in C1.
\<close>

definition user_s1 :: User where
  "user_s1 = \<lparr>user_pk = 1, username = ''s1'', password = ''secret'', email = ''s1@example.org'',
     first_name = ''Ada'', last_name = ''Roy'', is_staff = False, user_is_active = True\<rparr>"

definition student_s1 :: StudentProfile where
  "student_s1 = \<lparr>profile_pk = 1, profile_user = 1, student_id = ''S1'', phone = ''0170000000'',
     batch = Some 1, date_of_birth = None, address = [], profile_picture = None,
     enrollment_date = \<lparr>date_year = 2026, date_month = 1, date_day = 5\<rparr>,
     profile_is_active = True, is_verified = True, verified_at = Some 10,
     enrolled_courses = [1]\<rparr>"

definition course_c1 :: Course where
  "course_c1 = \<lparr>course_pk = 1, title = ''C1'', course_is_active = True\<rparr>"

definition module_1 :: Module where
  "module_1 = \<lparr>module_pk = 1, module_course = 1, module_title = ''M1'', order = 1,
     is_published = True, admin_completed = True\<rparr>"

definition module_2 :: Module where
  "module_2 = \<lparr>module_pk = 2, module_course = 1, module_title = ''M2'', order = 2,
     is_published = True, admin_completed = True\<rparr>"

definition db_scenario :: database where
  "db_scenario = \<lparr>users = [user_s1],
     batches = [\<lparr>batch_pk = 1, batch_name = ''B1'', batch_is_active = True\<rparr>],
     profiles = [student_s1], courses = [course_c1], modules = [module_1, module_2],
     completions = [], resources = [], announcements = [], certificates = [],
     gallery_images = [], branches = [], storage = []\<rparr>"

definition env_2026 :: env where
  "env_2026 = \<lparr>today = \<lparr>date_year = 2026, date_month = 3, date_day = 14\<rparr>, now = 100,
     get_available_name = (\<lambda>names name. name)\<rparr>"

definition request_s1 :: request where
  "request_s1 = \<lparr>req_user = Some user_s1, req_method = GET\<rparr>"

text \<open>
  The scenario with the student's own completion rows set, the database after the
  first certificate request on it, and a later date for the second request.
\<close>

definition completion_1 :: ModuleCompletion where
  "completion_1 = \<lparr>completion_pk = 1, completion_student = 1, completion_module = 1,
     completed = True, completed_at = Some 50\<rparr>"

definition completion_2 :: ModuleCompletion where
  "completion_2 = \<lparr>completion_pk = 2, completion_student = 1, completion_module = 2,
     completed = True, completed_at = Some 60\<rparr>"

definition db_completed :: database where
  "db_completed = db_scenario\<lparr>completions := [completion_1, completion_2]\<rparr>"

definition certificate_s1 :: Certificate where
  "certificate_s1 = \<lparr>certificate_pk = 1, certificate_student = 1, certificate_course = 1,
     issue_date = \<lparr>date_year = 2026, date_month = 3, date_day = 14\<rparr>,
     certificate_number = ''NCC-2026-S1'',
     pdf_file = Some ''certificates/certificate_NCC-2026-S1.pdf''\<rparr>"

definition page_s1 :: pdf where
  "page_s1 = \<lparr>pdf_student_name = ''ADA ROY'', pdf_registration_no = ''S1'',
     pdf_course_title = ''C1'',
     pdf_issue_date = \<lparr>date_year = 2026, date_month = 3, date_day = 14\<rparr>,
     pdf_certificate_no = ''NCC-2026-S1''\<rparr>"

definition db_issued :: database where
  "db_issued = db_completed\<lparr>certificates := [certificate_s1],
     storage := [(''certificates/certificate_NCC-2026-S1.pdf'', CertificatePdf page_s1)]\<rparr>"

definition env_2027 :: env where
  "env_2027 = \<lparr>today = \<lparr>date_year = 2027, date_month = 1, date_day = 9\<rparr>, now = 900,
     get_available_name = (\<lambda>names name. name)\<rparr>"

text \<open>
  Variations of the scenario: the second module not completed; no module at all; an
  unpublished module marked completed.
\<close>

definition db_partial :: database where
  "db_partial = db_scenario\<lparr>modules := [module_1, module_2\<lparr>admin_completed := False\<rparr>],
     completions := [completion_1]\<rparr>"

definition db_no_modules :: database where
  "db_no_modules = db_scenario\<lparr>modules := []\<rparr>"

definition module_3 :: Module where
  "module_3 = \<lparr>module_pk = 3, module_course = 1, module_title = ''M3 (draft)'', order = 3,
     is_published = False, admin_completed = True\<rparr>"

definition db_draft :: database where
  "db_draft = db_scenario\<lparr>modules := [module_1, module_3]\<rparr>"

text \<open>A second student, registered and not yet verified, and the login form of that student.\<close>

definition student_u2 :: StudentProfile where
  "student_u2 = \<lparr>profile_pk = 2, profile_user = 2, student_id = ''S2'', phone = ''0180000000'',
     batch = Some 1, date_of_birth = None, address = [], profile_picture = None,
     enrollment_date = \<lparr>date_year = 2026, date_month = 2, date_day = 1\<rparr>,
     profile_is_active = True, is_verified = False, verified_at = None,
     enrolled_courses = []\<rparr>"

definition user_u2 :: User where
  "user_u2 = \<lparr>user_pk = 2, username = ''s2'', password = ''hunter2'', email = ''s2@example.org'',
     first_name = ''Bo'', last_name = ''Das'', is_staff = False, user_is_active = True\<rparr>"

definition db_unverified :: database where
  "db_unverified = db_scenario\<lparr>users := [user_s1, user_u2], profiles := [student_s1, student_u2]\<rparr>"

definition anonymous_post :: request where
  "anonymous_post = \<lparr>req_user = None, req_method = POST\<rparr>"

definition login_u2 :: login_form where
  "login_u2 = \<lparr>login_username = ''s2'', login_password = ''hunter2''\<rparr>"





text \<open>
  A framework configuration (an address is valid when it has an at sign, the passwords
  must agree) and three registration forms: one with the registration number of S1,
  one with the address of S1 in other letter case, one with neither.
\<close>

definition framework_plain :: framework where
  "framework_plain = \<lparr>valid_email = (\<lambda>a. CHR ''@'' \<in> set a),
     user_creation_errors =
       (\<lambda>db form. if form_password1 form = form_password2 form then []
                   else [(''password2'', Invalid)])\<rparr>"

definition form_duplicate_id :: registration_form where
  "form_duplicate_id = \<lparr>form_username = ''newcomer'', form_first_name = ''Nur'',
     form_last_name = ''Khan'', form_email = [], form_password1 = ''pass-1234'',
     form_password2 = ''pass-1234'', form_student_id = '' S1 '', form_phone = ''0190000000'',
     form_batch = Some 1, form_date_of_birth = None, form_address = [],
     form_profile_picture = None\<rparr>"

definition form_duplicate_email :: registration_form where
  "form_duplicate_email = form_duplicate_id\<lparr>form_student_id := ''S9'',
     form_email := ''S1@Example.org''\<rparr>"

definition form_fresh :: registration_form where
  "form_fresh = form_duplicate_id\<lparr>form_student_id := ''S9'', form_email := ''s9@example.org''\<rparr>"

section \<open>The certificate table under updates\<close>



lemma put_row_Nil: "put_row c [] = []"
  by (simp add: put_row_def)

lemma put_row_Cons:
  "put_row c (x # xs) = (if certificate_pk x = certificate_pk c then c else x) # put_row c xs"
  by (simp add: put_row_def)







lemma filter_single: "filter P xs = [c] \<Longrightarrow> c \<in> set xs \<and> P c"
proof -
  assume "filter P xs = [c]"
  then have "c \<in> set (filter P xs)" by simp
  then show ?thesis by simp
qed

lemma get_or_create_certificate_Inr:
  assumes "get_or_create_certificate e student course db = Inr (c, created, db1)"
  shows "certificate_for student (course_pk course) c
       \<and> (if created
          then db1 = db\<lparr>certificates := certificates db @ [c]\<rparr>
             \<and> certificate_number c = [] \<and> pdf_file c = None \<and> issue_date c = today e
             \<and> certificate_pk c = next_pk (map certificate_pk (certificates db))
             \<and> filter (certificate_for student (course_pk course)) (certificates db) = []
             \<and> \<not> list_ex (\<lambda>c'. certificate_number c' = []) (certificates db)
          else db1 = db
             \<and> filter (certificate_for student (course_pk course)) (certificates db) = [c])"
proof (cases "filter (certificate_for student (course_pk course)) (certificates db)")
  case Nil
  with assms show ?thesis
    by (simp add: get_or_create_certificate_def Let_def split: if_splits)
       (auto simp: certificate_for_def)
next
  case (Cons x xs)
  with assms have xs: "xs = []" and c: "c = x" and "\<not> created" and "db1 = db"
    by (simp_all add: get_or_create_certificate_def split: list.splits)
  from Cons xs c have "filter (certificate_for student (course_pk course)) (certificates db) = [c]"
    by simp
  with filter_single [OF this] \<open>\<not> created\<close> \<open>db1 = db\<close> show ?thesis by simp
qed

lemma put_row_mem: "c0 \<in> set cs \<Longrightarrow> certificate_pk c0 = certificate_pk c \<Longrightarrow> c \<in> set (put_row c cs)"
  by (induction cs) (auto simp: put_row_Cons put_row_Nil)



lemma assign_number_Inr:
  assumes "assign_number e student c db = Inr (c2, db2)"
  shows "if certificate_number c = []
         then c2 = c\<lparr>certificate_number := generate_certificate_number e student\<rparr>
            \<and> save_certificate c2 db = Inr db2
         else c2 = c \<and> db2 = db"
proof (cases "certificate_number c = []")
  case True
  with assms show ?thesis
    by (cases "save_certificate (c\<lparr>certificate_number := generate_certificate_number e student\<rparr>) db")
       (auto simp: assign_number_def Let_def)
next
  case False
  with assms show ?thesis by (simp add: assign_number_def)
qed

lemma save_certificate_Inr:
  "save_certificate c db = Inr db' \<Longrightarrow> db' = db\<lparr>certificates := put_row c (certificates db)\<rparr>"
  by (simp add: save_certificate_def split: if_splits)


section \<open>Certificate requests\<close>


lemma render_and_store_cases:
  obtains st x where
      "res_db (render_and_store e request user student course c db) = db\<lparr>storage := st\<rparr>"
      "res_response (render_and_store e request user student course c db) = ServerError x"
  | n st where
      "res_db (render_and_store e request user student course c db)
         = db\<lparr>storage := st, certificates := put_row (c\<lparr>pdf_file := Some n\<rparr>) (certificates db)\<rparr>"
      "res_response (render_and_store e request user student course c db)
         = PdfAttachment (''certificate_'' @ certificate_number c @ ''.pdf'')
             \<lparr>pdf_student_name = upper (get_full_name user),
              pdf_registration_no = student_id student,
              pdf_course_title = title course,
              pdf_issue_date = issue_date c,
              pdf_certificate_no = certificate_number c\<rparr>"
      "save_certificate (c\<lparr>pdf_file := Some n\<rparr>) (db\<lparr>storage := st\<rparr>)
         = Inr (res_db (render_and_store e request user student course c db))"
proof -
  let ?page = "\<lparr>pdf_student_name = upper (get_full_name user),
              pdf_registration_no = student_id student,
              pdf_course_title = title course,
              pdf_issue_date = issue_date c,
              pdf_certificate_no = certificate_number c\<rparr>"
  obtain n st where ss: "storage_save e (''certificates/'' @ ''certificate_'' @ certificate_number c @ ''.pdf'')
       (CertificatePdf ?page) (storage db) = (n, st)"
    by (cases "storage_save e (''certificates/'' @ ''certificate_'' @ certificate_number c @ ''.pdf'')
       (CertificatePdf ?page) (storage db)")
  show thesis
  proof (cases "save_certificate (c\<lparr>pdf_file := Some n\<rparr>) (db\<lparr>storage := st\<rparr>)")
    case (Inl x)
    with ss have "res_db (render_and_store e request user student course c db) = db\<lparr>storage := st\<rparr>"
      and "res_response (render_and_store e request user student course c db) = ServerError x"
      by (simp_all add: render_and_store_def Let_def reply_def)
    then show thesis by (rule that(1))
  next
    case (Inr db2)
    with ss have 1: "res_db (render_and_store e request user student course c db) = db2"
      and 2: "res_response (render_and_store e request user student course c db)
         = PdfAttachment (''certificate_'' @ certificate_number c @ ''.pdf'') ?page"
      by (simp_all add: render_and_store_def Let_def reply_def)
    from save_certificate_Inr [OF Inr]
    have "db2 = db\<lparr>storage := st, certificates := put_row (c\<lparr>pdf_file := Some n\<rparr>) (certificates db)\<rparr>"
      by simp
    with 1 2 Inr show thesis using that(2) by simp
  qed
qed











lemma filter_key_le_one:
  "distinct (map f xs) \<Longrightarrow> length (filter (\<lambda>x. f x = k) xs) \<le> 1"
proof (induction xs)
  case Nil
  then show ?case by simp
next
  case (Cons x xs)
  show ?case
  proof (cases "f x = k")
    case True
    with Cons.prems have "\<forall>y\<in>set xs. f y \<noteq> k" by (auto simp: image_iff)
    then have "filter (\<lambda>x. f x = k) xs = []" by (simp add: filter_empty_conv)
    with True show ?thesis by simp
  next
    case False
    with Cons show ?thesis by simp
  qed
qed



lemmas example_defs = db_partial_def db_no_modules_def user_s1_def student_s1_def course_c1_def module_1_def module_2_def
  db_scenario_def env_2026_def request_s1_def completion_1_def completion_2_def
  db_completed_def certificate_s1_def page_s1_def db_issued_def env_2027_def

lemmas certificate_defs = generate_certificate_def issue_certificate_def assign_number_def
  render_and_store_def get_or_create_certificate_def save_certificate_def storage_save_def
  generate_certificate_number_def certificate_for_def put_row_def next_pk_def reply_def
  student_profile_of_def is_enrolled_def published_modules_def completed_completions_def
  get_full_name_def

lemmas string_defs = str_nat.simps digit_char_def upper_def upper_char_def lower_def
  lower_char_def strip_def is_space_def

lemma first_issue:
  "generate_certificate env_2026 request_s1 1 db_completed =
     \<lparr>res_response = PdfAttachment ''certificate_NCC-2026-S1.pdf'' page_s1,
      res_messages = [(Success, ''Certificate generated successfully!'')],
      res_db = db_issued, res_session = Some user_s1\<rparr>"
  by (simp add: example_defs certificate_defs string_defs Let_def)

lemma second_issue:
  "generate_certificate env_2027 request_s1 1 db_issued =
     \<lparr>res_response = PdfAttachment ''certificate_NCC-2026-S1.pdf'' page_s1,
      res_messages = [(Success, ''Certificate generated successfully!'')],
      res_db = db_issued, res_session = Some user_s1\<rparr>"
  by (simp add: example_defs certificate_defs string_defs Let_def)

lemma set_put_row_strong:
  "y \<in> set (put_row c cs) \<Longrightarrow> y = c \<or> (y \<in> set cs \<and> certificate_pk y \<noteq> certificate_pk c)"
  by (auto simp: put_row_def split: if_splits)

lemma put_row_only:
  assumes "\<forall>x\<in>set cs. P x \<longrightarrow> x = c" and "c \<in> set cs"
    and "certificate_pk c' = certificate_pk c"
  shows "c' \<in> set (put_row c' cs) \<and> (\<forall>x\<in>set (put_row c' cs). P x \<longrightarrow> x = c')"
proof
  show "c' \<in> set (put_row c' cs)"
    using put_row_mem [OF assms(2), of c'] assms(3) by simp
  show "\<forall>x\<in>set (put_row c' cs). P x \<longrightarrow> x = c'"
  proof (intro ballI impI)
    fix x assume x: "x \<in> set (put_row c' cs)" and px: "P x"
    from set_put_row_strong [OF x] show "x = c'"
    proof
      assume "x = c'" then show ?thesis .
    next
      assume "x \<in> set cs \<and> certificate_pk x \<noteq> certificate_pk c'"
      with assms(1) px have "x = c" and "certificate_pk x \<noteq> certificate_pk c'" by auto
      with assms(3) show ?thesis by simp
    qed
  qed
qed

lemma issue_certificate_number:
  assumes blank: "list_all (\<lambda>c. certificate_number c = [])
                   (filter (certificate_for student (course_pk course)) (certificates db))"
    and pdf: "res_response (issue_certificate e request user student course db)
                = PdfAttachment filename page"
  shows "\<exists>c. c \<in> set (certificates (res_db (issue_certificate e request user student course db)))
           \<and> certificate_for student (course_pk course) c
           \<and> certificate_number c = generate_certificate_number e student
           \<and> pdf_certificate_no page = generate_certificate_number e student
           \<and> filename = ''certificate_'' @ generate_certificate_number e student @ ''.pdf''
           \<and> (\<forall>x\<in>set (certificates (res_db (issue_certificate e request user student course db))).
                 certificate_for student (course_pk course) x \<longrightarrow> x = c)"
proof -
  let ?P = "certificate_for student (course_pk course)"
  obtain c created db1 where g: "get_or_create_certificate e student course db = Inr (c, created, db1)"
    using pdf
    by (cases "get_or_create_certificate e student course db")
       (auto simp: issue_certificate_def reply_def)
  note G = get_or_create_certificate_Inr [OF g]
  have pc: "?P c" using G by simp
  have c_blank: "certificate_number c = []"
    using G blank by (cases created) (simp_all add: list_all_iff)
  have only1: "\<forall>x\<in>set (certificates db1). ?P x \<longrightarrow> x = c" and mem1: "c \<in> set (certificates db1)"
  proof -
    show "\<forall>x\<in>set (certificates db1). ?P x \<longrightarrow> x = c"
    proof (cases created)
      case True
      with G have "db1 = db\<lparr>certificates := certificates db @ [c]\<rparr>"
        and "filter ?P (certificates db) = []" by simp_all
      then show ?thesis by (auto simp: filter_empty_conv)
    next
      case False
      with G have "db1 = db" and f: "filter ?P (certificates db) = [c]" by simp_all
      have "x = c" if "x \<in> set (certificates db)" "?P x" for x
      proof -
        from that have "x \<in> set (filter ?P (certificates db))" by simp
        with f show ?thesis by simp
      qed
      with \<open>db1 = db\<close> show ?thesis by blast
    qed
    show "c \<in> set (certificates db1)"
    proof (cases created)
      case True
      with G show ?thesis by simp
    next
      case False
      with G filter_single [of ?P "certificates db" c] show ?thesis by simp
    qed
  qed
  obtain c2 db2 where a: "assign_number e student c db1 = Inr (c2, db2)"
    using pdf g
    by (cases "assign_number e student c db1") (auto simp: issue_certificate_def reply_def)
  from assign_number_Inr [OF a] c_blank
  have c2: "c2 = c\<lparr>certificate_number := generate_certificate_number e student\<rparr>"
    and sv: "save_certificate c2 db1 = Inr db2" by auto
  from save_certificate_Inr [OF sv]
  have db2: "certificates db2 = put_row c2 (certificates db1)" by simp
  have pk2: "certificate_pk c2 = certificate_pk c" using c2 by simp
  have p2: "?P c2" using pc c2 by (simp add: certificate_for_def)
  from put_row_only [OF only1 mem1 pk2] db2
  have mem2: "c2 \<in> set (certificates db2)"
    and only2: "\<forall>x\<in>set (certificates db2). ?P x \<longrightarrow> x = c2" by simp_all
  have i: "issue_certificate e request user student course db
             = render_and_store e request user student course c2 db2"
    using g a by (simp add: issue_certificate_def)
  show ?thesis
  proof (cases rule: render_and_store_cases [of e request user student course c2 db2])
    case (1 st x)
    with pdf i show ?thesis by simp
  next
    case (2 n st)
    let ?c3 = "c2\<lparr>pdf_file := Some n\<rparr>"
    have pk3: "certificate_pk ?c3 = certificate_pk c2" by simp
    from 2(1) i
    have certs: "certificates (res_db (issue_certificate e request user student course db))
                   = put_row ?c3 (certificates db2)" by simp
    from put_row_only [OF only2 mem2 pk3] certs
    have "?c3 \<in> set (certificates (res_db (issue_certificate e request user student course db)))"
      and "\<forall>x\<in>set (certificates (res_db (issue_certificate e request user student course db))).
             ?P x \<longrightarrow> x = ?c3" by simp_all
    moreover have "?P ?c3" using p2 by (simp add: certificate_for_def)
    moreover have "certificate_number ?c3 = generate_certificate_number e student"
      using c2 by simp
    moreover from 2(2) i pdf c2
    have "pdf_certificate_no page = generate_certificate_number e student"
      and "filename = ''certificate_'' @ generate_certificate_number e student @ ''.pdf''"
      by auto
    ultimately show ?thesis by blast
  qed
qed

text \<open>
  C3. When a certificate request for a pair that has no numbered certificate yet
  returns the PDF, the pair's one certificate row carries the number
  \<open>NCC-<year>-<student_id>\<close>, with the year of the request and the student's
  \<open>student_id\<close>, and the page and the file name carry the same number.
\<close>

theorem certificate_number_format:
  assumes "req_user request = Some user"
    and "student_profile_of db user = Some student"
    and "res_response (generate_certificate e request course_id db) = PdfAttachment filename page"
    and "list_all (\<lambda>c. certificate_number c = [])
           (filter (certificate_for student course_id) (certificates db))"
  shows "\<exists>c. c \<in> set (certificates (res_db (generate_certificate e request course_id db)))
           \<and> certificate_for student course_id c
           \<and> certificate_number c
               = ''NCC-'' @ str_nat (date_year (today e)) @ ''-'' @ student_id student
           \<and> pdf_certificate_no page = certificate_number c
           \<and> filename = ''certificate_'' @ certificate_number c @ ''.pdf''
           \<and> (\<forall>x\<in>set (certificates (res_db (generate_certificate e request course_id db))).
                 certificate_for student course_id x \<longrightarrow> x = c)"
proof -
  obtain course where f: "find (\<lambda>c. course_pk c = course_id) (courses db) = Some course"
    using assms(1-3)
    by (cases "find (\<lambda>c. course_pk c = course_id) (courses db)")
       (auto simp: generate_certificate_def reply_def)
  then have k: "course_pk course = course_id" by (auto simp: find_Some_iff)
  have i: "generate_certificate e request course_id db
            = issue_certificate e request user student course db"
    using assms(1-3) f
    by (auto simp: generate_certificate_def reply_def Let_def split: if_splits)
  from assms(4) k
  have b: "list_all (\<lambda>c. certificate_number c = [])
             (filter (certificate_for student (course_pk course)) (certificates db))" by simp
  from assms(3) i
  have p: "res_response (issue_certificate e request user student course db)
             = PdfAttachment filename page" by simp
  from issue_certificate_number [OF b p] obtain c where
    c: "c \<in> set (certificates (res_db (issue_certificate e request user student course db)))"
      "certificate_for student (course_pk course) c"
      "certificate_number c = generate_certificate_number e student"
      "pdf_certificate_no page = generate_certificate_number e student"
      "filename = ''certificate_'' @ generate_certificate_number e student @ ''.pdf''"
      "\<forall>x\<in>set (certificates (res_db (issue_certificate e request user student course db))).
         certificate_for student (course_pk course) x \<longrightarrow> x = c"
    by blast
  show ?thesis
  proof (intro exI [of _ c] conjI)
    show "c \<in> set (certificates (res_db (generate_certificate e request course_id db)))"
      using c(1) i by simp
    show "certificate_for student course_id c" using c(2) k by simp
    show "certificate_number c
            = ''NCC-'' @ str_nat (date_year (today e)) @ ''-'' @ student_id student"
      using c(3) by (simp add: generate_certificate_number_def)
    show "pdf_certificate_no page = certificate_number c" using c(3,4) by simp
    show "filename = ''certificate_'' @ certificate_number c @ ''.pdf''" using c(3,5) by simp
    show "\<forall>x\<in>set (certificates (res_db (generate_certificate e request course_id db))).
            certificate_for student course_id x \<longrightarrow> x = c"
      using c(6) i k by simp
  qed
qed

theorem certificate_number_format_witness:
  "req_user request_s1 = Some user_s1
   \<and> student_profile_of db_completed user_s1 = Some student_s1
   \<and> res_response (generate_certificate env_2026 request_s1 1 db_completed)
       = PdfAttachment ''certificate_NCC-2026-S1.pdf'' page_s1
   \<and> list_all (\<lambda>c. certificate_number c = [])
         (filter (certificate_for student_s1 1) (certificates db_completed))
   \<and> (\<exists>c. c \<in> set (certificates (res_db (generate_certificate env_2026 request_s1 1 db_completed)))
           \<and> certificate_for student_s1 1 c
           \<and> certificate_number c = ''NCC-2026-S1''
           \<and> pdf_certificate_no page_s1 = certificate_number c)"
proof -
  have h1: "req_user request_s1 = Some user_s1" by (simp add: request_s1_def)
  have h2: "student_profile_of db_completed user_s1 = Some student_s1"
    by (simp add: example_defs student_profile_of_def)
  have h3: "res_response (generate_certificate env_2026 request_s1 1 db_completed)
       = PdfAttachment ''certificate_NCC-2026-S1.pdf'' page_s1"
    using first_issue by simp
  have h4: "list_all (\<lambda>c. certificate_number c = [])
         (filter (certificate_for student_s1 1) (certificates db_completed))"
    by (simp add: example_defs)
  have y: "''NCC-'' @ str_nat (date_year (today env_2026)) @ ''-'' @ student_id student_s1
            = ''NCC-2026-S1''"
    by (simp add: example_defs string_defs)
  from certificate_number_format [OF h1 h2 h3 h4] obtain c where
    c: "c \<in> set (certificates (res_db (generate_certificate env_2026 request_s1 1 db_completed)))"
      "certificate_for student_s1 1 c"
      "certificate_number c
         = ''NCC-'' @ str_nat (date_year (today env_2026)) @ ''-'' @ student_id student_s1"
      "pdf_certificate_no page_s1 = certificate_number c"
    by blast
  from c(3) y have n: "certificate_number c = ''NCC-2026-S1''" by simp
  have "\<exists>c. c \<in> set (certificates (res_db (generate_certificate env_2026 request_s1 1 db_completed)))
           \<and> certificate_for student_s1 1 c
           \<and> certificate_number c = ''NCC-2026-S1''
           \<and> pdf_certificate_no page_s1 = certificate_number c"
    using c(1,2,4) n by (intro exI [of _ c] conjI)
  with h1 h2 h3 h4 show ?thesis by (intro conjI)
qed

text \<open>
  C5. A certificate request of an enrolled student whose completion check fails is
  answered by a redirect to the course page with the ineligibility message, and the
  database, media storage included, is what it was: no certificate row and no file.
\<close>

theorem generate_certificate_ineligible:
  assumes "req_user request = Some user"
    and "student_profile_of db user = Some student"
    and "find (\<lambda>c. course_pk c = course_id) (courses db) = Some course"
    and "is_enrolled student (course_pk course)"
    and "length (completed_completions db student (course_pk course))
          < length (published_modules db (course_pk course))"
  shows "generate_certificate e request course_id db =
           \<lparr>res_response = Redirect ''course_detail'' [course_pk course],
            res_messages = [(Error, ''You must complete all modules before getting a certificate.'')],
            res_db = db, res_session = req_user request\<rparr>"
  using assms by (simp add: generate_certificate_def reply_def)

theorem generate_certificate_ineligible_witness:
  "req_user request_s1 = Some user_s1
   \<and> student_profile_of db_partial user_s1 = Some student_s1
   \<and> find (\<lambda>c. course_pk c = 1) (courses db_partial) = Some course_c1
   \<and> is_enrolled student_s1 (course_pk course_c1)
   \<and> length (completed_completions db_partial student_s1 (course_pk course_c1))
        < length (published_modules db_partial (course_pk course_c1))
   \<and> generate_certificate env_2026 request_s1 1 db_partial =
           \<lparr>res_response = Redirect ''course_detail'' [1],
            res_messages = [(Error, ''You must complete all modules before getting a certificate.'')],
            res_db = db_partial, res_session = Some user_s1\<rparr>"
proof -
  have h1: "req_user request_s1 = Some user_s1" by (simp add: request_s1_def)
  have h2: "student_profile_of db_partial user_s1 = Some student_s1"
    by (simp add: example_defs student_profile_of_def)
  have h3: "find (\<lambda>c. course_pk c = 1) (courses db_partial) = Some course_c1"
    by (simp add: example_defs)
  have h4: "is_enrolled student_s1 (course_pk course_c1)"
    by (simp add: example_defs is_enrolled_def)
  have h5: "length (completed_completions db_partial student_s1 (course_pk course_c1))
        < length (published_modules db_partial (course_pk course_c1))"
    by (simp add: example_defs completed_completions_def published_modules_def)
  have k: "course_pk course_c1 = 1" by (simp add: course_c1_def)
  from generate_certificate_ineligible [OF h1 h2 h3 h4 h5, of env_2026] h1 h2 h3 h4 h5 k
  show ?thesis by simp
qed


text \<open>
  C1. In the scenario of the specification (every published module of the course
  marked completed by the administrator, the student enrolled) the request is refused,
  because the handler counts the student's own completion rows; and for a course with
  no published module the certificate is issued.
\<close>

theorem generate_certificate_ignores_admin_completed:
  "list_all admin_completed (published_modules db_scenario 1)
   \<and> published_modules db_scenario 1 \<noteq> []
   \<and> is_enrolled student_s1 1
   \<and> generate_certificate env_2026 request_s1 1 db_scenario =
        \<lparr>res_response = Redirect ''course_detail'' [1],
         res_messages = [(Error, ''You must complete all modules before getting a certificate.'')],
         res_db = db_scenario, res_session = Some user_s1\<rparr>
   \<and> published_modules db_no_modules 1 = []
   \<and> res_response (generate_certificate env_2026 request_s1 1 db_no_modules)
       = PdfAttachment ''certificate_NCC-2026-S1.pdf'' page_s1"
  by (simp add: example_defs certificate_defs string_defs Let_def)

section \<open>Login of an unverified student\<close>

text \<open>
  C6. A login attempt (a request without a session) that names the account of a
  student whose profile is not verified leaves the request without a session and the
  database as it was, whatever the password; when the form validates, that is when the
  credentials are correct, the answer is the redirect to the login page with the
  pending-verification message at warning level.
\<close>

theorem unverified_login_no_session:
  assumes "req_user request = None"
    and "find (\<lambda>u. username u = strip (login_username form)) (users db) = Some user"
    and "student_profile_of db user = Some profile"
    and "\<not> is_verified profile"
  shows "res_session (student_login request form db) = None
       \<and> res_db (student_login request form db) = db
       \<and> (req_method request = POST \<and> authentication_form_valid db form \<longrightarrow>
            res_response (student_login request form db) = Redirect ''login'' []
          \<and> res_messages (student_login request form db) =
              [(Warning, ''Your account is pending verification by the administrator. Please wait for approval.'')])"
proof -
  have a: "authenticate db (strip (login_username form)) (login_password form) = Some u
            \<Longrightarrow> u = user" for u
    using assms(2) by (simp add: authenticate_def split: if_splits)
  show ?thesis
  proof (cases "req_method request = POST \<and> authentication_form_valid db form")
    case True
    then obtain u where u: "authenticate db (strip (login_username form)) (login_password form) = Some u"
      by (auto simp: authentication_form_valid_def)
    with a have "u = user" by simp
    with u True assms show ?thesis
      by (simp add: student_login_def reply_def)
  next
    case False
    with assms(1) show ?thesis
      by (auto simp: student_login_def reply_def)
  qed
qed

theorem unverified_login_no_session_witness:
  "req_user anonymous_post = None
   \<and> find (\<lambda>u. username u = strip (login_username login_u2)) (users db_unverified) = Some user_u2
   \<and> student_profile_of db_unverified user_u2 = Some student_u2
   \<and> \<not> is_verified student_u2
   \<and> req_method anonymous_post = POST \<and> authentication_form_valid db_unverified login_u2
   \<and> res_session (student_login anonymous_post login_u2 db_unverified) = None
   \<and> res_response (student_login anonymous_post login_u2 db_unverified) = Redirect ''login'' []
   \<and> res_messages (student_login anonymous_post login_u2 db_unverified) =
        [(Warning, ''Your account is pending verification by the administrator. Please wait for approval.'')]"
proof -
  have s: "strip (login_username login_u2) = ''s2''"
    by (simp add: login_u2_def strip_def is_space_def)
  have h1: "req_user anonymous_post = None" by (simp add: anonymous_post_def)
  have h2: "find (\<lambda>u. username u = strip (login_username login_u2)) (users db_unverified) = Some user_u2"
    unfolding s by (simp add: db_unverified_def db_scenario_def user_s1_def user_u2_def)
  have h3: "student_profile_of db_unverified user_u2 = Some student_u2"
    by (simp add: student_profile_of_def db_unverified_def db_scenario_def student_s1_def
        student_u2_def user_u2_def)
  have h4: "\<not> is_verified student_u2" by (simp add: student_u2_def)
  have h5: "req_method anonymous_post = POST" by (simp add: anonymous_post_def)
  have h6: "authentication_form_valid db_unverified login_u2"
    unfolding authentication_form_valid_def authenticate_def s
    by (simp add: login_u2_def db_unverified_def db_scenario_def user_s1_def user_u2_def)
  from unverified_login_no_session [OF h1 h2 h3 h4] h5 h6
  have "res_session (student_login anonymous_post login_u2 db_unverified) = None"
    and "res_response (student_login anonymous_post login_u2 db_unverified) = Redirect ''login'' []"
    and "res_messages (student_login anonymous_post login_u2 db_unverified) =
        [(Warning, ''Your account is pending verification by the administrator. Please wait for approval.'')]"
    by simp_all
  with h1 h2 h3 h4 h5 h6 show ?thesis by (intro conjI)
qed

section \<open>Resource download\<close>



section \<open>Completion rows\<close>

lemma completion_for_key:
  "completion_for student m =
     (\<lambda>x. (completion_student x, completion_module x) = (profile_pk student, module_pk m))"
  by (auto simp: completion_for_def fun_eq_iff)

lemma completion_at_most_one:
  assumes "completion_constraints db"
  shows "length (filter (completion_for student m) (completions db)) \<le> 1"
proof -
  from assms
  have "distinct (map (\<lambda>mc. (completion_student mc, completion_module mc)) (completions db))"
    by (simp add: completion_constraints_def)
  from filter_key_le_one [OF this, of "(profile_pk student, module_pk m)"]
  show ?thesis by (simp add: completion_for_key)
qed

lemma get_or_create_completion_cases:
  assumes "completion_constraints db"
  obtains
    (created) mc where
      "filter (completion_for student m) (completions db) = []"
      "get_or_create_completion student m db
         = Inr (mc, True, db\<lparr>completions := completions db @ [mc]\<rparr>)"
      "completion_for student m mc" "\<not> completed mc" "completed_at mc = None"
  | (existing) mc where
      "filter (completion_for student m) (completions db) = [mc]"
      "get_or_create_completion student m db = Inr (mc, False, db)"
proof (cases "filter (completion_for student m) (completions db)")
  case Nil
  let ?mc = "\<lparr>completion_pk = next_pk (map completion_pk (completions db)),
              completion_student = profile_pk student,
              completion_module = module_pk m,
              completed = False,
              completed_at = None\<rparr>"
  from Nil have "get_or_create_completion student m db
         = Inr (?mc, True, db\<lparr>completions := completions db @ [?mc]\<rparr>)"
    by (simp add: get_or_create_completion_def Let_def)
  moreover have "completion_for student m ?mc" by (simp add: completion_for_def)
  ultimately show thesis using Nil by (intro created [of ?mc]) simp_all
next
  case (Cons x xs)
  with completion_at_most_one [OF assms, of student m] have xs: "xs = []" by simp
  with Cons have "get_or_create_completion student m db = Inr (x, False, db)"
    by (simp add: get_or_create_completion_def)
  with Cons xs show thesis by (intro existing [of x]) simp_all
qed

lemma module_detail_db:
  assumes "req_user request = Some user"
    and "student_profile_of db user = Some student"
    and "find (\<lambda>m. module_pk m = module_id \<and> is_published m) (modules db) = Some m"
    and "is_enrolled student (module_course m)"
    and "get_or_create_completion student m db = Inr (mc, created, db1)"
  shows "res_db (module_detail request module_id db) = db1"
  using assms by (simp add: module_detail_def reply_def Let_def)

text \<open>
  C9. When an authenticated, enrolled student views a published module, and the
  completion table satisfies its uniqueness constraint, then after the request exactly
  one completion row links that student and that module: with no such row before, one
  is appended; with one before, the database is unchanged; and a second view of the
  module changes nothing.
\<close>

theorem module_detail_one_completion:
  assumes "req_user request = Some user"
    and "student_profile_of db user = Some student"
    and "find (\<lambda>m. module_pk m = module_id \<and> is_published m) (modules db) = Some m"
    and "is_enrolled student (module_course m)"
    and "completion_constraints db"
  shows "length (filter (completion_for student m)
                  (completions (res_db (module_detail request module_id db)))) = 1
       \<and> completion_constraints (res_db (module_detail request module_id db))
       \<and> (if filter (completion_for student m) (completions db) = []
          then \<exists>mc. res_db (module_detail request module_id db)
                      = db\<lparr>completions := completions db @ [mc]\<rparr>
          else res_db (module_detail request module_id db) = db)
       \<and> res_db (module_detail request module_id (res_db (module_detail request module_id db)))
           = res_db (module_detail request module_id db)"
proof -
  let ?db1 = "res_db (module_detail request module_id db)"
  have first: "length (filter (completion_for student m) (completions ?db1)) = 1
       \<and> completion_constraints ?db1
       \<and> (if filter (completion_for student m) (completions db) = []
          then \<exists>mc. ?db1 = db\<lparr>completions := completions db @ [mc]\<rparr>
          else ?db1 = db)
       \<and> modules ?db1 = modules db \<and> profiles ?db1 = profiles db"
  proof (cases rule: get_or_create_completion_cases [OF assms(5), of student m])
    case (1 mc)
    from module_detail_db [OF assms(1-4) 1(2)]
    have db1: "?db1 = db\<lparr>completions := completions db @ [mc]\<rparr>" .
    from 1(1) 1(3)
    have "(completion_student mc, completion_module mc)
            \<notin> set (map (\<lambda>mc. (completion_student mc, completion_module mc)) (completions db))"
      by (auto simp: filter_empty_conv completion_for_def)
    with assms(5) have "completion_constraints (db\<lparr>completions := completions db @ [mc]\<rparr>)"
      by (simp add: completion_constraints_def)
    with db1 1 show ?thesis by auto
  next
    case (2 mc)
    from module_detail_db [OF assms(1-4) 2(2)] have "?db1 = db" .
    with 2 assms(5) show ?thesis by simp
  qed
  then have one: "length (filter (completion_for student m) (completions ?db1)) = 1"
    and c1: "completion_constraints ?db1"
    and m1: "modules ?db1 = modules db" and p1: "profiles ?db1 = profiles db" by simp_all
  have a2: "student_profile_of ?db1 user = Some student"
    using assms(2) p1 by (simp add: student_profile_of_def)
  have a3: "find (\<lambda>m. module_pk m = module_id \<and> is_published m) (modules ?db1) = Some m"
    using assms(3) m1 by simp
  have second: "res_db (module_detail request module_id ?db1) = ?db1"
  proof (cases rule: get_or_create_completion_cases [OF c1, of student m])
    case (1 mc)
    with one show ?thesis by simp
  next
    case (2 mc)
    from module_detail_db [OF assms(1) a2 a3 assms(4) 2(2)] show ?thesis .
  qed
  from first second show ?thesis by simp
qed

theorem module_detail_one_completion_witness:
  "req_user request_s1 = Some user_s1
   \<and> student_profile_of db_scenario user_s1 = Some student_s1
   \<and> find (\<lambda>m. module_pk m = 1 \<and> is_published m) (modules db_scenario) = Some module_1
   \<and> is_enrolled student_s1 (module_course module_1)
   \<and> completion_constraints db_scenario
   \<and> length (filter (completion_for student_s1 module_1)
               (completions (res_db (module_detail request_s1 1 db_scenario)))) = 1
   \<and> completions (res_db (module_detail request_s1 1 db_scenario))
       = [\<lparr>completion_pk = 1, completion_student = 1, completion_module = 1,
           completed = False, completed_at = None\<rparr>]
   \<and> res_db (module_detail request_s1 1 (res_db (module_detail request_s1 1 db_scenario)))
       = res_db (module_detail request_s1 1 db_scenario)"
proof -
  have h1: "req_user request_s1 = Some user_s1" by (simp add: request_s1_def)
  have h2: "student_profile_of db_scenario user_s1 = Some student_s1"
    by (simp add: student_profile_of_def db_scenario_def student_s1_def user_s1_def)
  have h3: "find (\<lambda>m. module_pk m = 1 \<and> is_published m) (modules db_scenario) = Some module_1"
    by (simp add: db_scenario_def module_1_def)
  have h4: "is_enrolled student_s1 (module_course module_1)"
    by (simp add: is_enrolled_def student_s1_def module_1_def)
  have h5: "completion_constraints db_scenario"
    by (simp add: completion_constraints_def db_scenario_def)
  have v: "completions (res_db (module_detail request_s1 1 db_scenario))
       = [\<lparr>completion_pk = 1, completion_student = 1, completion_module = 1,
           completed = False, completed_at = None\<rparr>]"
    by (simp add: module_detail_def reply_def request_s1_def student_profile_of_def
        db_scenario_def student_s1_def user_s1_def module_1_def module_2_def is_enrolled_def
        get_or_create_completion_def completion_for_def next_pk_def Let_def)
  from module_detail_one_completion [OF h1 h2 h3 h4 h5]
  have "length (filter (completion_for student_s1 module_1)
               (completions (res_db (module_detail request_s1 1 db_scenario)))) = 1"
    and "res_db (module_detail request_s1 1 (res_db (module_detail request_s1 1 db_scenario)))
       = res_db (module_detail request_s1 1 db_scenario)"
    by simp_all
  with h1 h2 h3 h4 h5 v show ?thesis by (intro conjI)
qed

lemma save_certificate_completions:
  "save_certificate c db = Inr db1 \<Longrightarrow> completions db1 = completions db"
  by (drule save_certificate_Inr) simp

lemma render_and_store_completions:
  "completions (res_db (render_and_store e request user student course c db)) = completions db"
  by (cases rule: render_and_store_cases [of e request user student course c db]) simp_all

lemma issue_certificate_completions:
  "completions (res_db (issue_certificate e request user student course db)) = completions db"
proof (cases "get_or_create_certificate e student course db")
  case (Inl x)
  then show ?thesis by (simp add: issue_certificate_def reply_def)
next
  case (Inr t)
  then obtain c created db1 where g: "get_or_create_certificate e student course db = Inr (c, created, db1)"
    by (cases t) auto
  from get_or_create_certificate_Inr [OF g]
  have c1: "completions db1 = completions db" by (cases created) simp_all
  show ?thesis
  proof (cases "assign_number e student c db1")
    case (Inl x)
    with g c1 show ?thesis by (simp add: issue_certificate_def reply_def)
  next
    case (Inr u)
    then obtain c2 db2 where a: "assign_number e student c db1 = Inr (c2, db2)" by (cases u) auto
    from assign_number_Inr [OF a] have "completions db2 = completions db1"
      by (cases "certificate_number c = []") (auto dest: save_certificate_completions)
    with g a c1 show ?thesis
      by (simp add: issue_certificate_def render_and_store_completions)
  qed
qed

lemma generate_certificate_completions:
  "completions (res_db (generate_certificate e request course_id db)) = completions db"
  by (simp add: generate_certificate_def reply_def Let_def issue_certificate_completions
      split: option.splits)

lemma student_register_completions:
  "completions (res_db (student_register e fw request form db)) = completions db"
  by (simp add: student_register_def reply_def Let_def form_save_def split: prod.splits option.splits)

lemma module_detail_completions:
  "completions (res_db (module_detail request module_id db)) = completions db
   \<or> (\<exists>mc. completions (res_db (module_detail request module_id db)) = completions db @ [mc]
          \<and> \<not> completed mc \<and> completed_at mc = None)"
  by (simp add: module_detail_def reply_def Let_def get_or_create_completion_def
      split: option.splits list.splits)

lemma read_only_handlers:
  "res_db (home request db) = db" "res_db (gallery request db) = db"
  "res_db (contact request db) = db" "res_db (branches_page request db) = db"
  "res_db (student_login request lf db) = db" "res_db (student_logout request db) = db"
  "res_db (dashboard request db) = db" "res_db (student_profile request k db) = db"
  "res_db (course_detail request j db) = db" "res_db (download_resource request j db) = db"
  "res_db (announcements_page request db) = db" "res_db (course_list request db) = db"
  by (simp_all add: home_def gallery_def contact_def branches_page_def student_login_def
      student_logout_def dashboard_def student_profile_def course_detail_def
      download_resource_def announcements_page_def course_list_def reply_def Let_def
      split: option.splits)

text \<open>
  C10. Whatever the request, the completion table afterwards is the table before, or
  the table before with one new row whose \<open>completed\<close> is false and whose
  \<open>completed_at\<close> is unset: no handler changes a row that exists, and none sets
  \<open>completed\<close>. \<open>mark_complete\<close>, which no handler calls, is what sets the flag and the
  time.
\<close>

theorem viewing_never_completes:
  "(completions (res_db (handle e fw request route db)) = completions db
    \<or> (\<exists>mc. completions (res_db (handle e fw request route db)) = completions db @ [mc]
           \<and> \<not> completed mc \<and> completed_at mc = None))
   \<and> (completions (res_db (module_detail request module_id db)) = completions db
      \<or> (\<exists>mc. completions (res_db (module_detail request module_id db)) = completions db @ [mc]
             \<and> \<not> completed mc \<and> completed_at mc = None))
   \<and> completed (fst (mark_complete e row db))
   \<and> completed_at (fst (mark_complete e row db)) = Some (now e)"
proof (intro conjI)
  show "completions (res_db (handle e fw request route db)) = completions db
    \<or> (\<exists>mc. completions (res_db (handle e fw request route db)) = completions db @ [mc]
           \<and> \<not> completed mc \<and> completed_at mc = None)"
  proof (cases route)
    case (ModuleDetail k)
    then show ?thesis using module_detail_completions [of request k db] by simp
  next
    case (GenerateCertificate k)
    then show ?thesis by (simp add: generate_certificate_completions)
  next
    case (Register form)
    then show ?thesis by (simp add: student_register_completions)
  qed (simp_all add: read_only_handlers)
  show "completions (res_db (module_detail request module_id db)) = completions db
      \<or> (\<exists>mc. completions (res_db (module_detail request module_id db)) = completions db @ [mc]
             \<and> \<not> completed mc \<and> completed_at mc = None)"
    by (rule module_detail_completions)
  show "completed (fst (mark_complete e row db))"
    by (simp add: mark_complete_def Let_def)
  show "completed_at (fst (mark_complete e row db)) = Some (now e)"
    by (simp add: mark_complete_def Let_def)
qed

section \<open>Registration\<close>

lemma is_space_lower_char: "is_space (lower_char c) = is_space c"
  by (simp add: lower_char_def is_space_def split: option.splits if_splits)

lemma lower_char_idem: "lower_char (lower_char c) = lower_char c"
  by (simp add: lower_char_def split: option.splits if_splits)

lemma lower_idem: "lower (lower s) = lower s"
  by (simp add: lower_def lower_char_idem)

lemma dropWhile_lower: "dropWhile is_space (lower s) = lower (dropWhile is_space s)"
  by (induction s) (simp_all add: lower_def is_space_lower_char)

lemma strip_lower: "strip (lower s) = lower (strip s)"
proof -
  have "rev (lower s) = lower (rev s)" for s by (simp add: lower_def rev_map)
  then show ?thesis
    by (simp add: strip_def dropWhile_lower)
qed

lemma strip_idem: "strip (strip s) = strip s"
proof -
  define t where "t = dropWhile is_space s"
  define u where "u = rev (dropWhile is_space (rev t))"
  have su: "strip s = u" by (simp add: strip_def t_def u_def)
  have t: "t = u @ rev (takeWhile is_space (rev t))"
  proof -
    have "u @ rev (takeWhile is_space (rev t))
            = rev (takeWhile is_space (rev t) @ dropWhile is_space (rev t))"
      unfolding u_def by (simp only: rev_append)
    also have "\<dots> = t" by (simp only: takeWhile_dropWhile_id rev_rev_ident)
    finally show ?thesis by simp
  qed
  have 1: "dropWhile is_space u = u"
  proof (cases u)
    case Nil
    then show ?thesis by simp
  next
    case (Cons a as)
    define w where "w = rev (takeWhile is_space (rev t))"
    from t have "t = u @ w" by (simp only: w_def)
    with Cons have "t = a # as @ w" by simp
    then have "t \<noteq> []" and "hd t = a" by simp_all
    with hd_dropWhile [of is_space s] have "\<not> is_space a" by (simp add: t_def)
    with Cons show ?thesis by simp
  qed
  have 2: "dropWhile is_space (rev u) = rev u" by (simp add: u_def)
  show ?thesis unfolding su by (simp add: strip_def 1 2)
qed

lemma field_errors_Inl: "r = Inl err \<Longrightarrow> field_errors name r = [(name, err)]"
  by (simp add: field_errors_def)

lemma cleaned_student_id_duplicate:
  assumes "list_ex (\<lambda>p. student_id p = strip (form_student_id form)) (profiles db)"
  shows "\<exists>err. cleaned_student_id db form = Inl err
           \<and> (strip (form_student_id form) \<noteq> [] \<and> length (strip (form_student_id form)) \<le> 20
                \<longrightarrow> err = Message ''This Registration No is already registered.'')"
  using assms
  by (auto simp: cleaned_student_id_def clean_char_field_def clean_student_id_def Let_def)

lemma cleaned_email_duplicate:
  assumes "strip (form_email form) \<noteq> []"
    and "list_ex (\<lambda>u. lower (email u) = lower (strip (form_email form))) (users db)"
  shows "\<exists>err. cleaned_email fw db form = Inl err
           \<and> (valid_email fw (strip (form_email form))
                \<longrightarrow> err = Message ''This email is already registered.'')"
proof (cases "valid_email fw (strip (form_email form))")
  case True
  have "lower (strip (lower (strip (form_email form)))) = lower (strip (form_email form))"
    by (simp add: strip_lower strip_idem lower_idem)
  with assms True show ?thesis
    by (simp add: cleaned_email_def clean_email_field_def clean_email_def Let_def)
next
  case False
  with assms show ?thesis
    by (simp add: cleaned_email_def clean_email_field_def Let_def)
qed

text \<open>
  C8. A registration whose registration number (as the form cleans it, stripped)
  is that of an existing profile has an error on the field \<open>student_id\<close>, and one whose
  e-mail address is given and is, without regard to case, that of an existing user
  has an error on the field \<open>email\<close>; they are the messages of \<open>clean_student_id\<close> and
  \<open>clean_email\<close> when the field's own validation passes. Whenever the form has an
  error the database is left as it was and, for an anonymous POST, the form is
  rendered again with its errors; so user and profile rows are created only when the
  whole form validates.
\<close>

theorem registration_rejects_duplicates:
  "(list_ex (\<lambda>p. student_id p = strip (form_student_id form)) (profiles db) \<longrightarrow>
      (\<exists>err. (''student_id'', err) \<in> set (registration_errors fw db form)
         \<and> (strip (form_student_id form) \<noteq> [] \<and> length (strip (form_student_id form)) \<le> 20
              \<longrightarrow> err = Message ''This Registration No is already registered.'')))
   \<and> (strip (form_email form) \<noteq> []
       \<and> list_ex (\<lambda>u. lower (email u) = lower (strip (form_email form))) (users db) \<longrightarrow>
      (\<exists>err. (''email'', err) \<in> set (registration_errors fw db form)
         \<and> (valid_email fw (strip (form_email form))
              \<longrightarrow> err = Message ''This email is already registered.'')))
   \<and> (registration_errors fw db form \<noteq> [] \<longrightarrow>
        res_db (student_register e fw request form db) = db
      \<and> (req_user request = None \<and> req_method request = POST \<longrightarrow>
           res_response (student_register e fw request form db)
             = Render ''register.html'' (RegisterPage (registration_errors fw db form))))
   \<and> (res_db (student_register e fw request form db) \<noteq> db \<longrightarrow>
        registration_errors fw db form = [])"
proof (intro conjI impI)
  assume "list_ex (\<lambda>p. student_id p = strip (form_student_id form)) (profiles db)"
  from cleaned_student_id_duplicate [OF this] obtain err where
    err: "cleaned_student_id db form = Inl err"
      "strip (form_student_id form) \<noteq> [] \<and> length (strip (form_student_id form)) \<le> 20
         \<longrightarrow> err = Message ''This Registration No is already registered.''"
    by blast
  have "(''student_id'', err) \<in> set (registration_errors fw db form)"
    by (simp add: registration_errors_def field_errors_Inl [OF err(1)])
  with err(2)
  show "\<exists>err. (''student_id'', err) \<in> set (registration_errors fw db form)
         \<and> (strip (form_student_id form) \<noteq> [] \<and> length (strip (form_student_id form)) \<le> 20
              \<longrightarrow> err = Message ''This Registration No is already registered.'')"
    by blast
next
  assume "strip (form_email form) \<noteq> []
       \<and> list_ex (\<lambda>u. lower (email u) = lower (strip (form_email form))) (users db)"
  then have a: "strip (form_email form) \<noteq> []"
    and b: "list_ex (\<lambda>u. lower (email u) = lower (strip (form_email form))) (users db)"
    by simp_all
  from cleaned_email_duplicate [OF a b, of fw] obtain err where
    err: "cleaned_email fw db form = Inl err"
      "valid_email fw (strip (form_email form))
         \<longrightarrow> err = Message ''This email is already registered.''"
    by blast
  have "(''email'', err) \<in> set (registration_errors fw db form)"
    by (simp add: registration_errors_def field_errors_Inl [OF err(1)])
  with err(2)
  show "\<exists>err. (''email'', err) \<in> set (registration_errors fw db form)
         \<and> (valid_email fw (strip (form_email form))
              \<longrightarrow> err = Message ''This email is already registered.'')"
    by blast
next
  assume "registration_errors fw db form \<noteq> []"
  then show "res_db (student_register e fw request form db) = db"
    by (simp add: student_register_def reply_def Let_def)
next
  assume "registration_errors fw db form \<noteq> []"
    and "req_user request = None \<and> req_method request = POST"
  then show "res_response (student_register e fw request form db)
             = Render ''register.html'' (RegisterPage (registration_errors fw db form))"
    by (simp add: student_register_def reply_def Let_def)
next
  assume "res_db (student_register e fw request form db) \<noteq> db"
  then show "registration_errors fw db form = []"
    by (auto simp: student_register_def reply_def Let_def split: if_splits)
qed

lemmas registration_defs = registration_errors_def field_errors_def cleaned_student_id_def
  cleaned_email_def clean_char_field_def clean_email_field_def clean_batch_def
  clean_student_id_def clean_email_def student_register_def form_save_def reply_def

lemmas registration_example_defs = framework_plain_def form_duplicate_id_def
  form_duplicate_email_def form_fresh_def anonymous_post_def db_scenario_def user_s1_def
  student_s1_def env_2026_def

theorem registration_rejects_duplicates_witness:
  "list_ex (\<lambda>p. student_id p = strip (form_student_id form_duplicate_id)) (profiles db_scenario)
   \<and> strip (form_student_id form_duplicate_id) \<noteq> []
   \<and> length (strip (form_student_id form_duplicate_id)) \<le> 20
   \<and> (''student_id'', Message ''This Registration No is already registered.'')
        \<in> set (registration_errors framework_plain db_scenario form_duplicate_id)
   \<and> res_db (student_register env_2026 framework_plain anonymous_post form_duplicate_id db_scenario)
       = db_scenario
   \<and> req_user anonymous_post = None \<and> req_method anonymous_post = POST
   \<and> res_response (student_register env_2026 framework_plain anonymous_post form_duplicate_id
                      db_scenario)
       = Render ''register.html''
           (RegisterPage [(''student_id'', Message ''This Registration No is already registered.'')])
   \<and> strip (form_email form_duplicate_email) \<noteq> []
   \<and> list_ex (\<lambda>u. lower (email u) = lower (strip (form_email form_duplicate_email)))
         (users db_scenario)
   \<and> valid_email framework_plain (strip (form_email form_duplicate_email))
   \<and> (''email'', Message ''This email is already registered.'')
        \<in> set (registration_errors framework_plain db_scenario form_duplicate_email)
   \<and> res_db (student_register env_2026 framework_plain anonymous_post form_duplicate_email
                db_scenario) = db_scenario
   \<and> res_db (student_register env_2026 framework_plain anonymous_post form_fresh db_scenario)
       \<noteq> db_scenario
   \<and> registration_errors framework_plain db_scenario form_fresh = []"
proof -
  note T1 = registration_rejects_duplicates
              [of form_duplicate_id db_scenario framework_plain env_2026 anonymous_post]
  note T2 = registration_rejects_duplicates
              [of form_duplicate_email db_scenario framework_plain env_2026 anonymous_post]
  note T3 = registration_rejects_duplicates
              [of form_fresh db_scenario framework_plain env_2026 anonymous_post]
  have s1: "strip (form_student_id form_duplicate_id) = ''S1''"
    by (simp add: form_duplicate_id_def strip_def is_space_def)
  have s2: "strip (form_email form_duplicate_email) = ''S1@Example.org''"
    by (simp add: form_duplicate_email_def form_duplicate_id_def strip_def is_space_def)
  have a1: "list_ex (\<lambda>p. student_id p = strip (form_student_id form_duplicate_id))
              (profiles db_scenario)"
    unfolding s1 by (simp add: db_scenario_def student_s1_def)
  have a2: "strip (form_student_id form_duplicate_id) \<noteq> []"
    and a3: "length (strip (form_student_id form_duplicate_id)) \<le> 20"
    unfolding s1 by simp_all
  have a4: "req_user anonymous_post = None" and a5: "req_method anonymous_post = POST"
    by (simp_all add: anonymous_post_def)
  have e1: "registration_errors framework_plain db_scenario form_duplicate_id
              = [(''student_id'', Message ''This Registration No is already registered.'')]"
    by (simp add: registration_defs registration_example_defs strip_def is_space_def Let_def)
  have b1: "strip (form_email form_duplicate_email) \<noteq> []" unfolding s2 by simp
  have b2: "list_ex (\<lambda>u. lower (email u) = lower (strip (form_email form_duplicate_email)))
              (users db_scenario)"
    unfolding s2 by (simp add: db_scenario_def user_s1_def lower_def lower_char_def)
  have b3: "valid_email framework_plain (strip (form_email form_duplicate_email))"
    unfolding s2 by (simp add: framework_plain_def)
  have c1: "length (users (res_db (student_register env_2026 framework_plain anonymous_post
                                     form_fresh db_scenario))) = 2"
    by (simp add: registration_defs registration_example_defs strip_def is_space_def Let_def
        lower_def lower_char_def)
  have "length (users db_scenario) = 1" by (simp add: db_scenario_def)
  with c1 have c2: "res_db (student_register env_2026 framework_plain anonymous_post form_fresh
                              db_scenario) \<noteq> db_scenario"
    by auto
  from T1 a1 a2 a3
  have r1: "(''student_id'', Message ''This Registration No is already registered.'')
        \<in> set (registration_errors framework_plain db_scenario form_duplicate_id)"
    by blast
  from r1 have n1: "registration_errors framework_plain db_scenario form_duplicate_id \<noteq> []"
    by auto
  from T1 n1 a4 a5
  have r2: "res_db (student_register env_2026 framework_plain anonymous_post form_duplicate_id
                      db_scenario) = db_scenario"
    and r3: "res_response (student_register env_2026 framework_plain anonymous_post
                             form_duplicate_id db_scenario)
       = Render ''register.html''
           (RegisterPage (registration_errors framework_plain db_scenario form_duplicate_id))"
    by blast+
  from r3 e1
  have r3': "res_response (student_register env_2026 framework_plain anonymous_post
                             form_duplicate_id db_scenario)
       = Render ''register.html''
           (RegisterPage [(''student_id'', Message ''This Registration No is already registered.'')])"
    by simp
  from T2 b1 b2 b3
  have r4: "(''email'', Message ''This email is already registered.'')
        \<in> set (registration_errors framework_plain db_scenario form_duplicate_email)"
    by blast
  from r4 have n2: "registration_errors framework_plain db_scenario form_duplicate_email \<noteq> []"
    by auto
  from T2 n2
  have r5: "res_db (student_register env_2026 framework_plain anonymous_post form_duplicate_email
                db_scenario) = db_scenario"
    by blast
  from T3 c2 have r6: "registration_errors framework_plain db_scenario form_fresh = []"
    by blast
  from a1 a2 a3 r1 r2 a4 a5 r3' b1 b2 b3 r4 r5 c2 r6 show ?thesis by (intro conjI)
qed

section \<open>Completion figures\<close>

lemmas page_defs = dashboard_def student_profile_def course_detail_def reply_def
  student_profile_of_def active_enrolled_courses_def announcements_for_def order_by_def
  order_by_desc_def published_modules_def is_enrolled_def certificate_for_def

lemmas page_example_defs = db_draft_def db_scenario_def module_1_def module_2_def module_3_def
  course_c1_def student_s1_def user_s1_def request_s1_def

text \<open>
  C2. The figures the handlers report are not all computed by the definition of the
  specification. On the dashboard an unpublished module that the administrator marked
  completed is counted: 2, where the course has one module that is published and
  completed. On the profile page the student's own completion rows are counted: 0 in
  the scenario, where both published modules are marked completed.
\<close>

theorem completed_figure_counterexample:
  "res_response (dashboard request_s1 db_draft)
     = Render ''dashboard.html'' (DashboardPage student_s1 [course_c1] [] 2 [] [])
   \<and> length (filter (\<lambda>m. module_course m = 1 \<and> is_published m \<and> admin_completed m)
               (modules db_draft)) = 1
   \<and> res_response (student_profile request_s1 None db_scenario)
       = Render ''student_profile.html'' (ProfilePage student_s1 2 0 [])
   \<and> length (filter (\<lambda>m. module_course m = 1 \<and> is_published m \<and> admin_completed m)
               (modules db_scenario)) = 2"
  by (simp add: page_defs page_example_defs Let_def)

lemma length_filter_order_by:
  "length (filter P (order_by key rows)) = length (filter P rows)"
  by (simp add: order_by_def filter_sort)

lemma in_active_enrolled:
  "k \<in> set (map course_pk (active_enrolled_courses db student))
     \<longleftrightarrow> (\<exists>c \<in> set (courses db). course_pk c = k \<and> course_is_active c
                                  \<and> course_pk c \<in> set (enrolled_courses student))"
  by (auto simp: active_enrolled_courses_def order_by_def)

lemma course_detail_page:
  assumes "req_user request = Some user"
    and "student_profile_of db user = Some student"
    and "find (\<lambda>c. course_pk c = course_id \<and> course_is_active c) (courses db) = Some course"
  shows "\<exists>rs en cert.
           res_response (course_detail request course_id db)
             = Render ''course_detail.html''
                 (CourseDetailPage course
                    (order_by order (published_modules db course_id))
                    (map module_pk (filter admin_completed
                                      (order_by order (published_modules db course_id))))
                    rs en cert)"
proof -
  from assms(3) have "course_pk course = course_id" by (auto simp: find_Some_iff)
  with assms show ?thesis by (simp add: course_detail_def reply_def Let_def)
qed

text \<open>
  C2 (as amended). For a logged-in student with a profile: the course page of an
  active course lists the course's published modules and marks as completed exactly
  those of them with \<open>admin_completed\<close>, so the completed count is the number of modules
  of the course that are published and marked completed by the administrator, and the
  total is the number of published modules; the dashboard reports the number of modules
  marked completed by the administrator, published or not, in the student's active
  enrolled courses; the profile page reports as total the number of published modules
  in those courses.
\<close>

theorem completion_figures:
  assumes "req_user request = Some user"
    and "student_profile_of db user = Some student"
  shows "(\<forall>course.
            find (\<lambda>c. course_pk c = course_id \<and> course_is_active c) (courses db) = Some course \<longrightarrow>
            (\<exists>published ids rs en cert.
               res_response (course_detail request course_id db)
                 = Render ''course_detail.html'' (CourseDetailPage course published ids rs en cert)
             \<and> set published = {m \<in> set (modules db). module_course m = course_id \<and> is_published m}
             \<and> length published
                 = length (filter (\<lambda>m. module_course m = course_id \<and> is_published m) (modules db))
             \<and> ids = map module_pk (filter admin_completed published)
             \<and> length ids
                 = length (filter (\<lambda>m. module_course m = course_id \<and> is_published m
                                      \<and> admin_completed m) (modules db))))
       \<and> (\<exists>cs an n bs gs.
             res_response (dashboard request db)
               = Render ''dashboard.html'' (DashboardPage student cs an n bs gs)
           \<and> n = length (filter (\<lambda>m. admin_completed m
                     \<and> (\<exists>c \<in> set (courses db). course_pk c = module_course m
                            \<and> course_is_active c
                            \<and> course_pk c \<in> set (enrolled_courses student))) (modules db)))
       \<and> (\<exists>total done certs.
             res_response (student_profile request None db)
               = Render ''student_profile.html'' (ProfilePage student total done certs)
           \<and> total = length (filter (\<lambda>m. is_published m
                     \<and> (\<exists>c \<in> set (courses db). course_pk c = module_course m
                            \<and> course_is_active c
                            \<and> course_pk c \<in> set (enrolled_courses student))) (modules db)))"
proof (intro conjI allI impI)
  fix course
  assume f: "find (\<lambda>c. course_pk c = course_id \<and> course_is_active c) (courses db) = Some course"
  let ?published = "order_by order (published_modules db course_id)"
  from course_detail_page [OF assms f] obtain rs en cert where
    r: "res_response (course_detail request course_id db)
             = Render ''course_detail.html''
                 (CourseDetailPage course ?published
                    (map module_pk (filter admin_completed ?published)) rs en cert)"
    by blast
  have 1: "set ?published = {m \<in> set (modules db). module_course m = course_id \<and> is_published m}"
    by (auto simp: order_by_def published_modules_def)
  have 2: "length ?published
             = length (filter (\<lambda>m. module_course m = course_id \<and> is_published m) (modules db))"
    by (simp add: order_by_def published_modules_def)
  have 3: "length (map module_pk (filter admin_completed ?published))
             = length (filter (\<lambda>m. module_course m = course_id \<and> is_published m
                                      \<and> admin_completed m) (modules db))"
    by (simp add: length_filter_order_by published_modules_def conj_ac)
  from r 1 2 3
  show "\<exists>published ids rs en cert.
               res_response (course_detail request course_id db)
                 = Render ''course_detail.html'' (CourseDetailPage course published ids rs en cert)
             \<and> set published = {m \<in> set (modules db). module_course m = course_id \<and> is_published m}
             \<and> length published
                 = length (filter (\<lambda>m. module_course m = course_id \<and> is_published m) (modules db))
             \<and> ids = map module_pk (filter admin_completed published)
             \<and> length ids
                 = length (filter (\<lambda>m. module_course m = course_id \<and> is_published m
                                      \<and> admin_completed m) (modules db))"
    by blast
next
  have "length (filter (\<lambda>m. module_course m \<in> set (map course_pk (active_enrolled_courses db student))
                              \<and> admin_completed m) (modules db))
        = length (filter (\<lambda>m. admin_completed m
                     \<and> (\<exists>c \<in> set (courses db). course_pk c = module_course m
                            \<and> course_is_active c
                            \<and> course_pk c \<in> set (enrolled_courses student))) (modules db))"
    by (simp only: in_active_enrolled conj_commute)
  with assms
  show "\<exists>cs an n bs gs.
             res_response (dashboard request db)
               = Render ''dashboard.html'' (DashboardPage student cs an n bs gs)
           \<and> n = length (filter (\<lambda>m. admin_completed m
                     \<and> (\<exists>c \<in> set (courses db). course_pk c = module_course m
                            \<and> course_is_active c
                            \<and> course_pk c \<in> set (enrolled_courses student))) (modules db))"
    by (simp add: dashboard_def reply_def Let_def)
next
  have "length (filter (\<lambda>m. module_course m \<in> set (map course_pk (active_enrolled_courses db student))
                              \<and> is_published m) (modules db))
        = length (filter (\<lambda>m. is_published m
                     \<and> (\<exists>c \<in> set (courses db). course_pk c = module_course m
                            \<and> course_is_active c
                            \<and> course_pk c \<in> set (enrolled_courses student))) (modules db))"
    by (simp only: in_active_enrolled conj_commute)
  with assms
  show "\<exists>total done certs.
             res_response (student_profile request None db)
               = Render ''student_profile.html'' (ProfilePage student total done certs)
           \<and> total = length (filter (\<lambda>m. is_published m
                     \<and> (\<exists>c \<in> set (courses db). course_pk c = module_course m
                            \<and> course_is_active c
                            \<and> course_pk c \<in> set (enrolled_courses student))) (modules db))"
    by (simp add: student_profile_def reply_def Let_def)
qed

theorem completion_figures_witness:
  "req_user request_s1 = Some user_s1
   \<and> student_profile_of db_draft user_s1 = Some student_s1
   \<and> find (\<lambda>c. course_pk c = 1 \<and> course_is_active c) (courses db_draft) = Some course_c1
   \<and> (\<exists>published ids rs en cert.
         res_response (course_detail request_s1 1 db_draft)
           = Render ''course_detail.html'' (CourseDetailPage course_c1 published ids rs en cert)
       \<and> set published = {m \<in> set (modules db_draft). module_course m = 1 \<and> is_published m}
       \<and> ids = map module_pk (filter admin_completed published)
       \<and> length ids = 1 \<and> length published = 1)
   \<and> (\<exists>cs an bs gs.
         res_response (dashboard request_s1 db_draft)
           = Render ''dashboard.html'' (DashboardPage student_s1 cs an 2 bs gs))
   \<and> (\<exists>done certs.
         res_response (student_profile request_s1 None db_draft)
           = Render ''student_profile.html'' (ProfilePage student_s1 1 done certs))"
proof -
  have h1: "req_user request_s1 = Some user_s1" by (simp add: request_s1_def)
  have h2: "student_profile_of db_draft user_s1 = Some student_s1"
    by (simp add: student_profile_of_def page_example_defs)
  have h3: "find (\<lambda>c. course_pk c = 1 \<and> course_is_active c) (courses db_draft) = Some course_c1"
    by (simp add: page_example_defs)
  have n1: "length (filter (\<lambda>m. module_course m = 1 \<and> is_published m) (modules db_draft)) = 1"
    by (simp add: page_example_defs)
  have n2: "length (filter (\<lambda>m. module_course m = 1 \<and> is_published m \<and> admin_completed m)
                      (modules db_draft)) = 1"
    by (simp add: page_example_defs)
  have n3: "length (filter (\<lambda>m. admin_completed m
                     \<and> (\<exists>c \<in> set (courses db_draft). course_pk c = module_course m
                            \<and> course_is_active c
                            \<and> course_pk c \<in> set (enrolled_courses student_s1))) (modules db_draft)) = 2"
    by (simp add: page_example_defs)
  have n4: "length (filter (\<lambda>m. is_published m
                     \<and> (\<exists>c \<in> set (courses db_draft). course_pk c = module_course m
                            \<and> course_is_active c
                            \<and> course_pk c \<in> set (enrolled_courses student_s1))) (modules db_draft)) = 1"
    by (simp add: page_example_defs)
  note T = completion_figures [OF h1 h2, of 1]
  from T have "\<forall>course.
            find (\<lambda>c. course_pk c = 1 \<and> course_is_active c) (courses db_draft) = Some course \<longrightarrow>
            (\<exists>published ids rs en cert.
               res_response (course_detail request_s1 1 db_draft)
                 = Render ''course_detail.html'' (CourseDetailPage course published ids rs en cert)
             \<and> set published = {m \<in> set (modules db_draft). module_course m = 1 \<and> is_published m}
             \<and> length published
                 = length (filter (\<lambda>m. module_course m = 1 \<and> is_published m) (modules db_draft))
             \<and> ids = map module_pk (filter admin_completed published)
             \<and> length ids
                 = length (filter (\<lambda>m. module_course m = 1 \<and> is_published m
                                      \<and> admin_completed m) (modules db_draft)))"
    by (rule conjunct1)
  from this [rule_format, OF h3] n1 n2
  have c1: "\<exists>published ids rs en cert.
         res_response (course_detail request_s1 1 db_draft)
           = Render ''course_detail.html'' (CourseDetailPage course_c1 published ids rs en cert)
       \<and> set published = {m \<in> set (modules db_draft). module_course m = 1 \<and> is_published m}
       \<and> ids = map module_pk (filter admin_completed published)
       \<and> length ids = 1 \<and> length published = 1"
    by (elim exE conjE) (intro exI conjI, assumption+, simp_all)
  from T n3
  have c2: "\<exists>cs an bs gs.
         res_response (dashboard request_s1 db_draft)
           = Render ''dashboard.html'' (DashboardPage student_s1 cs an 2 bs gs)"
    by (elim conjE exE) (intro exI, simp)
  from T n4
  have c3: "\<exists>done certs.
         res_response (student_profile request_s1 None db_draft)
           = Render ''student_profile.html'' (ProfilePage student_s1 1 done certs)"
    by (elim conjE exE) (intro exI, simp)
  from h1 h2 h3 c1 c2 c3 show ?thesis by (intro conjI)
qed

end
